theory Spec2Isabelle
  imports Main "HOL-Library.Log_Nat"
begin

section \<open>JavaScript numbers\<close>

text \<open>
  The program computes on JavaScript numbers, which are IEEE 754 binary64 values. A
  number is modelled by its exact value: a finite non-zero double is \<open>Fin r\<close> with
  \<open>r\<close> the rational it denotes, \<open>Fin 0\<close> is \<open>+0\<close>, \<open>NZero\<close> is \<open>-0\<close>, and the
  two infinities and \<open>NaN\<close> are constructors of their own. Every arithmetic operation
  computes the exact rational result and rounds it with \<open>fl\<close> (round to nearest, ties
  to even, 53 significant bits, gradual underflow, overflow to infinity). A decimal
  literal of the source, such as \<open>0.024\<close>, denotes \<open>fl (24/1000)\<close>.
\<close>

datatype jsnum = NaN | PInf | NInf | NZero | Fin rat

text \<open>\<open>ilog2 q\<close> is the binary exponent of a positive rational: \<open>2^e \<le> q < 2^(e+1)\<close>.\<close>

definition ilog2 :: "rat \<Rightarrow> int" where
  "ilog2 q = (let (a, b) = quotient_of q; k = bitlen a - bitlen b
              in if 2 powi k \<le> q then k else k - 1)"

definition round_half_even :: "rat \<Rightarrow> int" where
  "round_half_even x =
     (let f = \<lfloor>x\<rfloor>; d = x - of_int f
      in if d < 1/2 then f else if 1/2 < d then f + 1
         else if even f then f else f + 1)"

text \<open>
  Rounding of an exact result to binary64. For a magnitude \<open>a > 0\<close>, \<open>exponent a\<close> is
  the binary exponent of the result before rounding, held at \<open>-1022\<close> for a subnormal
  one; \<open>ulp a\<close> is the weight of the last of the 53 significand bits, and
  \<open>significand a\<close> the rounded significand as an integer. A result whose rounded
  significand needs the exponent \<open>1024\<close> overflows to an infinity.
\<close>

definition exponent :: "rat \<Rightarrow> int" where
  "exponent a = max (ilog2 a) (- 1022)"

definition ulp :: "rat \<Rightarrow> rat" where
  "ulp a = 2 powi (exponent a - 52)"

definition significand :: "rat \<Rightarrow> int" where
  "significand a = round_half_even (a / ulp a)"

definition zero_of :: "bool \<Rightarrow> jsnum" where
  "zero_of negative = (if negative then NZero else Fin 0)"

definition inf_of :: "bool \<Rightarrow> jsnum" where
  "inf_of negative = (if negative then NInf else PInf)"

definition fl :: "rat \<Rightarrow> jsnum" where
  "fl q =
     (if q = 0 then Fin 0
      else let a = \<bar>q\<bar>; n = significand a
           in if 1023 < exponent a \<or> (exponent a = 1023 \<and> 2 ^ 53 \<le> n) then inf_of (q < 0)
              else if n = 0 then zero_of (q < 0)
              else Fin (if q < 0 then - (of_int n * ulp a) else of_int n * ulp a))"

text \<open>The value of a finite number, and the sign bit.\<close>

fun fval :: "jsnum \<Rightarrow> rat" where
  "fval (Fin r) = r"
| "fval _ = 0"

fun is_neg :: "jsnum \<Rightarrow> bool" where
  "is_neg NInf = True"
| "is_neg NZero = True"
| "is_neg (Fin r) = (r < 0)"
| "is_neg _ = False"

fun is_zero :: "jsnum \<Rightarrow> bool" where
  "is_zero NZero = True"
| "is_zero (Fin r) = (r = 0)"
| "is_zero _ = False"

fun is_inf :: "jsnum \<Rightarrow> bool" where
  "is_inf PInf = True"
| "is_inf NInf = True"
| "is_inf _ = False"

text \<open>
  The relational operators \<open><\<close>, \<open>>\<close>, \<open>>=\<close> and \<open><=\<close>: every comparison with \<open>NaN\<close>
  is false.
\<close>

fun lt :: "jsnum \<Rightarrow> jsnum \<Rightarrow> bool" where
  "lt NaN _ = False"
| "lt _ NaN = False"
| "lt PInf _ = False"
| "lt _ NInf = False"
| "lt NInf _ = True"
| "lt _ PInf = True"
| "lt x y = (fval x < fval y)"

definition gt :: "jsnum \<Rightarrow> jsnum \<Rightarrow> bool" where
  "gt x y = lt y x"

definition ge :: "jsnum \<Rightarrow> jsnum \<Rightarrow> bool" where
  "ge x y = (x \<noteq> NaN \<and> y \<noteq> NaN \<and> \<not> lt x y)"

definition le :: "jsnum \<Rightarrow> jsnum \<Rightarrow> bool" where
  "le x y = (x \<noteq> NaN \<and> y \<noteq> NaN \<and> \<not> lt y x)"

text \<open>Unary minus, \<open>+\<close>, \<open>-\<close>, \<open>*\<close> and \<open>/\<close> on numbers.\<close>

fun neg :: "jsnum \<Rightarrow> jsnum" where
  "neg NaN = NaN"
| "neg PInf = NInf"
| "neg NInf = PInf"
| "neg NZero = Fin 0"
| "neg (Fin r) = (if r = 0 then NZero else Fin (- r))"

definition add :: "jsnum \<Rightarrow> jsnum \<Rightarrow> jsnum" where
  "add x y =
     (if x = NaN \<or> y = NaN then NaN
      else if is_inf x \<and> is_inf y then (if x = y then x else NaN)
      else if is_inf x then x
      else if is_inf y then y
      else let s = fval x + fval y
           in if s = 0 then zero_of (is_neg x \<and> is_neg y) else fl s)"

definition sub :: "jsnum \<Rightarrow> jsnum \<Rightarrow> jsnum" where
  "sub x y = add x (neg y)"

definition mul :: "jsnum \<Rightarrow> jsnum \<Rightarrow> jsnum" where
  "mul x y =
     (if x = NaN \<or> y = NaN then NaN
      else if is_inf x \<or> is_inf y
        then (if is_zero x \<or> is_zero y then NaN else inf_of (is_neg x \<noteq> is_neg y))
      else if is_zero x \<or> is_zero y then zero_of (is_neg x \<noteq> is_neg y)
      else fl (fval x * fval y))"

definition divide :: "jsnum \<Rightarrow> jsnum \<Rightarrow> jsnum" where
  "divide x y =
     (if x = NaN \<or> y = NaN then NaN
      else if is_inf x then (if is_inf y then NaN else inf_of (is_neg x \<noteq> is_neg y))
      else if is_inf y then zero_of (is_neg x \<noteq> is_neg y)
      else if is_zero y then (if is_zero x then NaN else inf_of (is_neg x \<noteq> is_neg y))
      else if is_zero x then zero_of (is_neg x \<noteq> is_neg y)
      else fl (fval x / fval y))"

text \<open>\<open>Math.abs\<close> and \<open>Math.ceil\<close>.\<close>

fun Math_abs :: "jsnum \<Rightarrow> jsnum" where
  "Math_abs NaN = NaN"
| "Math_abs PInf = PInf"
| "Math_abs NInf = PInf"
| "Math_abs NZero = Fin 0"
| "Math_abs (Fin r) = Fin \<bar>r\<bar>"

fun Math_ceil :: "jsnum \<Rightarrow> jsnum" where
  "Math_ceil (Fin r) = (if r < 0 \<and> - 1 < r then NZero else Fin (of_int \<lceil>r\<rceil>))"
| "Math_ceil x = x"

text \<open>
  A property that may be absent reads as \<open>undefined\<close>: \<open>None\<close>. \<open>num\<close> is the
  conversion of such a value to a number (\<open>undefined\<close> becomes \<open>NaN\<close>), \<open>truthy\<close> is the
  boolean conversion of a number, and \<open>or_default v d\<close> is \<open>v || d\<close>.
\<close>

fun num :: "jsnum option \<Rightarrow> jsnum" where
  "num None = NaN"
| "num (Some x) = x"

fun truthy :: "jsnum \<Rightarrow> bool" where
  "truthy NaN = False"
| "truthy NZero = False"
| "truthy (Fin r) = (r \<noteq> 0)"
| "truthy _ = True"

fun or_default :: "jsnum option \<Rightarrow> jsnum \<Rightarrow> jsnum" where
  "or_default None d = d"
| "or_default (Some x) d = (if truthy x then x else d)"

section \<open>risk-core.js: the PulseScore\<close>

text \<open>
  The metrics object handed to \<open>calculatePulseScore\<close>. \<open>maturityDate\<close> holds the time
  value, in milliseconds, of \<open>new Date(protocolData.maturityDate)\<close>, and \<open>None\<close> when
  that is an invalid date (also when the property is absent). The numeric properties
  are \<open>None\<close> when absent. \<open>protocol\<close> is compared with \<open>===\<close> against three names, so
  that an absent one is any string that is none of them.
\<close>

record protocolData =
  protocol :: string
  maturityDate :: "int option"
  cooldownDays :: "jsnum option"
  fundingRate :: "jsnum option"
  depegRisk :: "jsnum option"
  confidence :: "jsnum option"

text \<open>\<open>1000 * 60 * 60 * 24\<close>, evaluated left to right.\<close>

definition msPerDay :: jsnum where
  "msPerDay = mul (mul (mul (Fin 1000) (Fin 60)) (Fin 60)) (Fin 24)"

text \<open>
  \<open>_daysUntilDate\<close>; the second argument is the time value of \<open>new Date()\<close> at the
  moment of the call.
\<close>

definition daysUntilDate :: "int option \<Rightarrow> int \<Rightarrow> jsnum" where
  "daysUntilDate date now =
     (let diffMs = sub (case date of None \<Rightarrow> NaN | Some d \<Rightarrow> Fin (of_int d)) (Fin (of_int now))
      in Math_ceil (divide diffMs msPerDay))"

text \<open>
  \<open>calculatePulseScore\<close>. The running score starts at 100 and only has integers
  between 5 and 30 subtracted from it, at most four times: all these values are
  integers that binary64 represents exactly, so the score is computed on \<open>int\<close>.
  Each of the four \<open>if\<close> statements of the function body is a definition of its own
  that takes the running score and returns the updated one.
\<close>

text \<open>Factor 1, Pendle: \<open>if (protocolData.protocol === 'Pendle') { ... }\<close>.\<close>

definition temporalRiskPendle :: "int \<Rightarrow> protocolData \<Rightarrow> int \<Rightarrow> int" where
  "temporalRiskPendle now p score =
     (if protocol p = ''Pendle'' then
        let daysToMaturity = daysUntilDate (maturityDate p) now
        in if lt daysToMaturity (Fin 1) then score - 30
           else if lt daysToMaturity (Fin 3) then score - 20
           else if lt daysToMaturity (Fin 7) then score - 10
           else score
      else score)"

text \<open>Factor 1, Falcon: \<open>if (protocolData.protocol === 'Falcon') { ... }\<close>.\<close>

definition temporalRiskFalcon :: "protocolData \<Rightarrow> int \<Rightarrow> int" where
  "temporalRiskFalcon p score =
     (if protocol p = ''Falcon'' then
        let cooldown = num (cooldownDays p)
        in if lt cooldown (Fin 3) then score - 25
           else if lt cooldown (Fin 5) then score - 15
           else if lt cooldown (Fin 7) then score - 5
           else score
      else score)"

text \<open>Factor 2: \<open>if (protocolData.protocol === 'Ethena') { ... }\<close>.\<close>

definition depegDeviation :: "protocolData \<Rightarrow> int \<Rightarrow> int" where
  "depegDeviation p score =
     (if protocol p = ''Ethena'' then
        let funding = Math_abs (num (fundingRate p));
            depeg = or_default (depegRisk p) (fl (1/100));
            score =
              (if gt funding (fl (5/100)) then score - 20
               else if gt funding (fl (2/100)) then score - 10
               else score)
        in if gt depeg (fl (2/100)) then score - 15
           else if gt depeg (fl (1/100)) then score - 8
           else score
      else score)"

text \<open>Factor 3: \<open>if (protocolData.confidence !== undefined) { ... }\<close>.\<close>

definition liveness :: "protocolData \<Rightarrow> int \<Rightarrow> int" where
  "liveness p score =
     (case confidence p of
        None \<Rightarrow> score
      | Some conf \<Rightarrow>
          if lt conf (fl (8/10)) then score - 30
          else if lt conf (fl (9/10)) then score - 15
          else if lt conf (fl (95/100)) then score - 5
          else score)"

text \<open>The function itself; a falsy argument (\<open>null\<close>, \<open>undefined\<close>) is \<open>None\<close>.\<close>

definition calculatePulseScore :: "int \<Rightarrow> protocolData option \<Rightarrow> int" where
  "calculatePulseScore now protocolData =
     (case protocolData of
        None \<Rightarrow> 0
      | Some p \<Rightarrow>
          let score = 100;
              score = temporalRiskPendle now p score;
              score = temporalRiskFalcon p score;
              score = depegDeviation p score;
              score = liveness p score
          in max 0 (min 100 score))"

section \<open>Strings of numbers\<close>

text \<open>
  \<open>Number.prototype.toString\<close>. The digits of a positive finite number are the
  shortest decimal string that reads back as the same double; that choice of digits is
  the parameter \<open>ts\<close> of every function that turns a number into text. The sign and
  the strings of the special values are fixed by the language.
\<close>

definition numberToString :: "(rat \<Rightarrow> string) \<Rightarrow> jsnum \<Rightarrow> string" where
  "numberToString ts x =
     (case x of
        NaN \<Rightarrow> ''NaN''
      | PInf \<Rightarrow> ''Infinity''
      | NInf \<Rightarrow> ''-Infinity''
      | NZero \<Rightarrow> ''0''
      | Fin r \<Rightarrow> if r = 0 then ''0'' else if r < 0 then ''-'' @ ts (- r) else ts r)"

text \<open>The decimal digits of a non-negative integer.\<close>

definition digit_char :: "int \<Rightarrow> char" where
  "digit_char d = ''0123456789'' ! nat d"

function digits :: "int \<Rightarrow> string" where
  "digits n = (if n < 10 then [digit_char n] else digits (n div 10) @ [digit_char (n mod 10)])"
  by pat_completeness auto
termination
  by (relation "measure nat") auto

declare digits.simps [simp del]

text \<open>
  For an integer up to \<open>2^53\<close> the shortest digits are its decimal digits. The
  examples below turn only such numbers into text by \<open>toString\<close> and pass this
  function for \<open>ts\<close>.
\<close>

definition integer_digits :: "rat \<Rightarrow> string" where
  "integer_digits r = digits \<lfloor>r\<rfloor>"

text \<open>
  \<open>Number.prototype.toFixed(f)\<close>, for \<open>0 \<le> f \<le> 100\<close>. \<open>fixed_digits f n\<close> writes the
  integer \<open>n\<close> with a decimal point before its last \<open>f\<close> digits, padding with zeros on
  the left up to \<open>f + 1\<close> digits. For a finite \<open>x\<close> of magnitude below \<open>10^21\<close>,
  \<open>n\<close> is the integer for which \<open>n / 10^f\<close> is nearest to the magnitude of \<open>x\<close>, the
  larger one of two; a negative \<open>x\<close> gets a minus sign, also when \<open>n\<close> is zero.
\<close>

definition fixed_digits :: "nat \<Rightarrow> int \<Rightarrow> string" where
  "fixed_digits f n =
     (let m = digits n
      in if f \<noteq> 0 then
           let k = length m;
               m = (if k \<le> f then replicate (f + 1 - k) (CHR ''0'') @ m else m);
               k = length m
           in take (k - f) m @ ''.'' @ drop (k - f) m
         else m)"

definition toFixed_int :: "nat \<Rightarrow> rat \<Rightarrow> int" where
  "toFixed_int f a = \<lfloor>a * 10 ^ f + 1/2\<rfloor>"

definition toFixed :: "(rat \<Rightarrow> string) \<Rightarrow> nat \<Rightarrow> jsnum \<Rightarrow> string" where
  "toFixed ts f x =
     (case x of
        NaN \<Rightarrow> ''NaN''
      | PInf \<Rightarrow> ''Infinity''
      | NInf \<Rightarrow> ''-Infinity''
      | NZero \<Rightarrow> fixed_digits f 0
      | Fin r \<Rightarrow>
          (if r < 0 then ''-'' else [])
          @ (if 10 ^ 21 \<le> \<bar>r\<bar> then ts \<bar>r\<bar> else fixed_digits f (toFixed_int f \<bar>r\<bar>)))"

section \<open>exit-optimizer.js: redemption against market exit\<close>

text \<open>
  The \<open>ExitOptimizer\<close> object (the transport URL left out) and its constructor; a
  configuration property that is absent or falsy takes its default.
\<close>

record exitOptimizer =
  slippageEstimate :: jsnum
  gasEstimate :: jsnum
  dailyYieldRate :: jsnum
  depegRiskScenarios :: "(string \<times> jsnum) list"

record exitConfig =
  cfg_slippageEstimate :: "jsnum option"
  cfg_gasEstimate :: "jsnum option"
  cfg_dailyYieldRate :: "jsnum option"

definition new_ExitOptimizer :: "exitConfig \<Rightarrow> exitOptimizer" where
  "new_ExitOptimizer config =
     \<lparr>slippageEstimate = or_default (cfg_slippageEstimate config) (fl (4/1000)),
      gasEstimate = or_default (cfg_gasEstimate config) (Fin 5),
      dailyYieldRate = or_default (cfg_dailyYieldRate config) (fl (24/1000)),
      depegRiskScenarios =
        [(''best'', Fin 0), (''mid'', fl (5/1000)), (''worst'', fl (2/100))]\<rparr>"

text \<open>The instance the file creates.\<close>

definition exitOptimizer :: exitOptimizer where
  "exitOptimizer =
     new_ExitOptimizer
       \<lparr>cfg_slippageEstimate = Some (fl (4/1000)), cfg_gasEstimate = Some (Fin 5),
        cfg_dailyYieldRate = Some (fl (24/1000))\<rparr>"

text \<open>
  The quotes and the two path objects. Their properties carry a prefix here
  (\<open>rd_\<close> redemption data, \<open>md_\<close> market data, \<open>rp_\<close> redemption path, \<open>mp_\<close> market
  path). \<open>amount\<close> is a number: where \<open>calculateExit\<close> hands over the text of the input
  field, every use of it is a product or a quotient, which converts it.
\<close>

record redemptionData =
  rd_nav :: jsnum
  rd_cooldownDays :: jsnum

record marketData =
  md_price :: jsnum
  md_dex :: "string option"
  md_liquidity :: "jsnum option"

record redemptionPath =
  rp_strategy :: string
  rp_amount :: jsnum
  rp_nav :: jsnum
  rp_finalValue :: jsnum
  rp_yieldAccrued :: jsnum
  rp_haircut :: jsnum
  rp_fees :: jsnum
  rp_cooldownDays :: jsnum
  rp_timeToLiquidity :: string
  rp_risks :: "string list"

record marketPath =
  mp_strategy :: string
  mp_amount :: jsnum
  mp_price :: jsnum
  mp_finalValue :: jsnum
  mp_slippageLoss :: jsnum
  mp_gasEstimate :: jsnum
  mp_totalCost :: jsnum
  mp_haircut :: string
  mp_timeToLiquidity :: string
  mp_dex :: "string option"
  mp_liquidity :: "jsnum option"
  mp_risks :: "string list"

definition calculateRedemptionPath ::
  "(rat \<Rightarrow> string) \<Rightarrow> exitOptimizer \<Rightarrow> jsnum \<Rightarrow> redemptionData \<Rightarrow> redemptionPath" where
  "calculateRedemptionPath ts this amount redemptionData =
     (let nav = rd_nav redemptionData;
          cooldownDays = rd_cooldownDays redemptionData;
          yieldAccrued = mul (mul amount (dailyYieldRate this)) cooldownDays
      in \<lparr>rp_strategy = ''Redemption (Cooldown)'',
          rp_amount = amount,
          rp_nav = nav,
          rp_finalValue = add (mul amount nav) yieldAccrued,
          rp_yieldAccrued = yieldAccrued,
          rp_haircut = Fin 0,
          rp_fees = Fin 0,
          rp_cooldownDays = cooldownDays,
          rp_timeToLiquidity = numberToString ts cooldownDays @ '' days'',
          rp_risks = [''De-peg exposure during lock-up'', ''Opportunity cost of capital'',
                      ''Potential protocol changes'']\<rparr>)"

definition calculateMarketPath ::
  "(rat \<Rightarrow> string) \<Rightarrow> exitOptimizer \<Rightarrow> jsnum \<Rightarrow> marketData \<Rightarrow> marketPath" where
  "calculateMarketPath ts this amount marketData =
     (let price = md_price marketData;
          slippageLoss = mul (mul amount price) (slippageEstimate this);
          finalValue = sub (sub (mul amount price) slippageLoss) (gasEstimate this)
      in \<lparr>mp_strategy = ''Instant Liquidity (DEX)'',
          mp_amount = amount,
          mp_price = price,
          mp_finalValue = finalValue,
          mp_slippageLoss = slippageLoss,
          mp_gasEstimate = gasEstimate this,
          mp_totalCost = add slippageLoss (gasEstimate this),
          mp_haircut = toFixed ts 2 (mul (slippageEstimate this) (Fin 100)),
          mp_timeToLiquidity = ''2-5 minutes'',
          mp_dex = md_dex marketData,
          mp_liquidity = md_liquidity marketData,
          mp_risks = [''DEX slippage impact'', ''Gas fee volatility'',
                      ''Smart contract risk'']\<rparr>)"

text \<open>
  The result of one stress scenario and of the comparison. The numbers a scenario
  reports are the strings \<open>toFixed(2)\<close> returns.
\<close>

record scenarioResult =
  sc_scenario :: string
  sc_depegPercent :: string
  sc_redemptionValue :: string
  sc_marketValue :: string
  sc_recommendation :: string
  sc_gainLoss :: string

record breakeven =
  depegPercent :: string
  description :: string

record analysis =
  bestCase :: scenarioResult
  midCase :: scenarioResult
  worstCase :: scenarioResult

record liquidityGain =
  liquidityGainHours :: jsnum
  timeUnit :: string
  netDifference :: jsnum
  percentDifference :: string
  recommendation :: string
  breakeven :: breakeven
  analysis :: analysis

text \<open>
  \<open>scenario.charAt(0).toUpperCase() + scenario.slice(1)\<close>; the upper case of a
  character is modelled for the letters \<open>a\<close> to \<open>z\<close>, which the three scenario names
  are made of.
\<close>

definition toUpperCase_char :: "char \<Rightarrow> char" where
  "toUpperCase_char c =
     (if 97 \<le> (of_char c :: nat) \<and> (of_char c :: nat) \<le> 122
      then char_of ((of_char c :: nat) - 32) else c)"

definition capitalize :: "string \<Rightarrow> string" where
  "capitalize s = map toUpperCase_char (take 1 s) @ drop 1 s"

text \<open>\<open>_calculateBreakeven\<close>.\<close>

definition calculateBreakeven ::
  "(rat \<Rightarrow> string) \<Rightarrow> redemptionPath \<Rightarrow> marketPath \<Rightarrow> string" where
  "calculateBreakeven ts redemptionPath marketPath =
     (let costOfWaiting = or_default (Some (rp_yieldAccrued redemptionPath)) (Fin 0);
          costOfExiting = mp_totalCost marketPath;
          breakeven = divide (sub costOfExiting costOfWaiting) (rp_amount redemptionPath)
      in toFixed ts 2 (mul (Math_abs breakeven) (Fin 100)))"

text \<open>
  \<open>_scenarioAnalysis\<close>. A scenario name that is no key of \<open>depegRiskScenarios\<close> reads
  as \<open>undefined\<close>.
\<close>

definition scenarioAnalysis ::
  "(rat \<Rightarrow> string) \<Rightarrow> exitOptimizer \<Rightarrow> redemptionPath \<Rightarrow> marketPath \<Rightarrow> string
     \<Rightarrow> scenarioResult" where
  "scenarioAnalysis ts this redemptionPath marketPath scenario =
     (let depegRisk = num (map_of (depegRiskScenarios this) scenario);
          redemptionValue =
            add (mul (rp_amount redemptionPath) (sub (Fin 1) depegRisk))
                (rp_yieldAccrued redemptionPath);
          marketValue = mp_finalValue marketPath
      in \<lparr>sc_scenario = capitalize scenario,
          sc_depegPercent = toFixed ts 2 (mul depegRisk (Fin 100)),
          sc_redemptionValue = toFixed ts 2 redemptionValue,
          sc_marketValue = toFixed ts 2 marketValue,
          sc_recommendation = (if gt redemptionValue marketValue then ''WAIT'' else ''EXIT_NOW''),
          sc_gainLoss = toFixed ts 2 (sub redemptionValue marketValue)\<rparr>)"

definition calculateLiquidityGain ::
  "(rat \<Rightarrow> string) \<Rightarrow> exitOptimizer \<Rightarrow> redemptionPath \<Rightarrow> marketPath \<Rightarrow> liquidityGain" where
  "calculateLiquidityGain ts this redemptionPath marketPath =
     (let cooldownHours = mul (rp_cooldownDays redemptionPath) (Fin 24);
          redemptionValue = rp_finalValue redemptionPath;
          marketValue = mp_finalValue marketPath;
          netDiff = sub redemptionValue marketValue;
          recomm = (if gt netDiff (Fin 0) then ''WAIT'' else ''EXIT_NOW'')
      in \<lparr>liquidityGainHours = cooldownHours,
          timeUnit = ''hours'',
          netDifference = netDiff,
          percentDifference = toFixed ts 2 (mul (divide netDiff redemptionValue) (Fin 100)),
          recommendation = recomm,
          breakeven =
            \<lparr>depegPercent = calculateBreakeven ts redemptionPath marketPath,
             description = ''De-peg % that makes waiting equal to exiting''\<rparr>,
          analysis =
            \<lparr>bestCase = scenarioAnalysis ts this redemptionPath marketPath ''best'',
             midCase = scenarioAnalysis ts this redemptionPath marketPath ''mid'',
             worstCase = scenarioAnalysis ts this redemptionPath marketPath ''worst''\<rparr>\<rparr>)"

text \<open>
  The comparator as \<open>calculateExit\<close> runs it, once both quotes are there: the two
  paths, then the comparison.
\<close>

definition compare ::
  "(rat \<Rightarrow> string) \<Rightarrow> exitOptimizer \<Rightarrow> jsnum \<Rightarrow> redemptionData \<Rightarrow> marketData
     \<Rightarrow> redemptionPath \<times> marketPath \<times> liquidityGain" where
  "compare ts this amount redemptionData marketData =
     (let redemptionPath = calculateRedemptionPath ts this amount redemptionData;
          marketPath = calculateMarketPath ts this amount marketData;
          liquidityGain = calculateLiquidityGain ts this redemptionPath marketPath
      in (redemptionPath, marketPath, liquidityGain))"

section \<open>audit-manager.js: the tax export\<close>

text \<open>
  A property of a logged record is any JSON value; of those the model has
  \<open>undefined\<close> (an absent property), \<open>null\<close>, booleans, numbers and strings.
\<close>

datatype jsval = JUndefined | JNull | JBool bool | JNum jsnum | JStr string

text \<open>\<open>String(v)\<close>, the boolean conversion, and \<open>v || d\<close> on values.\<close>

definition toStr :: "(rat \<Rightarrow> string) \<Rightarrow> jsval \<Rightarrow> string" where
  "toStr ts v =
     (case v of
        JUndefined \<Rightarrow> ''undefined''
      | JNull \<Rightarrow> ''null''
      | JBool b \<Rightarrow> (if b then ''true'' else ''false'')
      | JNum x \<Rightarrow> numberToString ts x
      | JStr s \<Rightarrow> s)"

fun truthy_val :: "jsval \<Rightarrow> bool" where
  "truthy_val JUndefined = False"
| "truthy_val JNull = False"
| "truthy_val (JBool b) = b"
| "truthy_val (JNum x) = truthy x"
| "truthy_val (JStr s) = (s \<noteq> [])"

definition or_val :: "jsval \<Rightarrow> jsval \<Rightarrow> jsval" where
  "or_val v d = (if truthy_val v then v else d)"

text \<open>
  A logged record. \<open>RewardAmount\<close> and \<open>ExchangeRate\<close> hold the numbers that
  \<open>parseFloat\<close> reads from the two properties (\<open>NaN\<close> when there is none to read);
  the other properties are values as they are.
\<close>

record yieldLog =
  Timestamp :: jsval
  Asset :: jsval
  Protocol :: jsval
  RewardAmount :: jsnum
  ExchangeRate :: jsnum
  RiskScore :: jsval

record auditManager =
  userLocation :: string
  yieldLogs :: "yieldLog list"

text \<open>\<open>calculateTaxLiability\<close>.\<close>

definition calculateTaxLiability :: "auditManager \<Rightarrow> jsnum \<Rightarrow> jsnum" where
  "calculateTaxLiability this costBasisLocal =
     (let taxRate = (if userLocation this = ''KE'' then fl (30/100) else fl (20/100))
      in mul costBasisLocal taxRate)"

text \<open>\<open>Array.prototype.join\<close> on strings.\<close>

fun join :: "string \<Rightarrow> string list \<Rightarrow> string" where
  "join sep [] = []"
| "join sep [x] = x"
| "join sep (x # y # ys) = x @ sep @ join sep (y # ys)"

text \<open>
  \<open>generateTaxCSV\<close>, in the three steps of its body: the header row, one row for each
  logged record, and the text. A cell is a value until \<open>String(cell)\<close> is applied to
  it. \<open>csvCell\<close> is the function mapped over the cells: every double quote is doubled,
  and the cell is put between double quotes when it holds a comma. With records of the
  type above no step throws, so the \<open>catch\<close> branch that returns \<open>null\<close> is not
  reached.
\<close>

definition csvHeader :: "string \<Rightarrow> jsval list" where
  "csvHeader currency =
     [JStr ''Timestamp'', JStr ''Asset'', JStr ''Protocol'', JStr ''Reward Amount (Crypto)'',
      JStr (''Value at Receipt ('' @ currency @ '')''), JStr ''Exchange Rate'',
      JStr ''Tax Liability'', JStr ''Risk Score at Time'']"

definition csvRow ::
  "(rat \<Rightarrow> string) \<Rightarrow> auditManager \<Rightarrow> yieldLog \<Rightarrow> jsval list" where
  "csvRow ts this logEntry =
     (let amount = RewardAmount logEntry;
          exchangeRate = or_default (Some (ExchangeRate logEntry)) (Fin 1);
          valueLocal = mul amount exchangeRate;
          taxLiability = calculateTaxLiability this valueLocal;
          riskScore = or_val (RiskScore logEntry) (JStr ''N/A'')
      in [Timestamp logEntry, Asset logEntry, Protocol logEntry,
          JStr (toFixed ts 8 amount), JStr (toFixed ts 2 valueLocal),
          JStr (toFixed ts 4 exchangeRate), JStr (toFixed ts 2 taxLiability), riskScore])"

definition escapeQuotes :: "string \<Rightarrow> string" where
  "escapeQuotes s = concat (map (\<lambda>c. if c = CHR 0x22 then [CHR 0x22, CHR 0x22] else [c]) s)"

definition csvCell :: "(rat \<Rightarrow> string) \<Rightarrow> jsval \<Rightarrow> string" where
  "csvCell ts cell =
     (let escaped = escapeQuotes (toStr ts cell)
      in if CHR '','' \<in> set escaped then [CHR 0x22] @ escaped @ [CHR 0x22] else escaped)"

definition generateTaxCSV ::
  "(rat \<Rightarrow> string) \<Rightarrow> auditManager \<Rightarrow> string \<Rightarrow> string" where
  "generateTaxCSV ts this currency =
     (let csvRows = csvHeader currency # map (csvRow ts this) (yieldLogs this)
      in join [CHR 0x0A] (map (\<lambda>row. join '','' (map (csvCell ts) row)) csvRows))"

section \<open>Properties of rounding\<close>

text \<open>The binary exponent brackets its argument.\<close>

lemma bitlen_pow_bounds:
  fixes a :: int
  assumes "0 < a"
  shows "(2::rat) powi (bitlen a - 1) \<le> of_int a" "of_int a < (2::rat) powi (bitlen a)"
proof -
  from bitlen_bounds[OF assms]
  have 1: "2 ^ nat (bitlen a - 1) \<le> a" and 2: "a < 2 ^ nat (bitlen a)" by auto
  have ge1: "1 \<le> bitlen a" using assms by (simp add: bitlen_alt_def)
  have "(of_int (2 ^ nat (bitlen a - 1)) :: rat) \<le> of_int a" using 1 by (simp only: of_int_le_iff)
  then show "(2::rat) powi (bitlen a - 1) \<le> of_int a"
    using ge1 by (simp add: power_int_def)
  have "(of_int a :: rat) < of_int (2 ^ nat (bitlen a))" using 2 by (simp only: of_int_less_iff)
  then show "of_int a < (2::rat) powi (bitlen a)"
    using ge1 by (simp add: power_int_def)
qed

lemma ilog2_bounds:
  assumes "0 < q"
  shows "2 powi (ilog2 q) \<le> q" "q < 2 powi (ilog2 q + 1)"
proof -
  obtain a b where ab: "quotient_of q = (a, b)" by (cases "quotient_of q")
  have bpos: "0 < b" using ab quotient_of_denom_pos by blast
  have q: "q = of_int a / of_int b" using ab quotient_of_div by blast
  have apos: "0 < a" using assms bpos q by (simp add: zero_less_divide_iff)
  define k where "k = bitlen a - bitlen b"
  have il: "ilog2 q = (if 2 powi k \<le> q then k else k - 1)"
    by (simp add: ilog2_def ab k_def Let_def)
  note A = bitlen_pow_bounds[OF apos] and B = bitlen_pow_bounds[OF bpos]
  have bq: "(0::rat) < of_int b" using bpos by simp
  have up: "q < (2::rat) powi (k + 1)"
  proof -
    have "q * of_int b < 2 powi (bitlen a)" using A(2) q bq by simp
    also have "\<dots> = 2 powi (k + 1) * 2 powi (bitlen b - 1)"
      by (simp add: k_def flip: power_int_add)
    also have "\<dots> \<le> 2 powi (k + 1) * of_int b"
      using B(1) by (intro mult_left_mono) auto
    finally show ?thesis using bq by simp
  qed
  have lo: "(2::rat) powi (k - 1) \<le> q"
  proof -
    have "(2::rat) powi (k - 1) * of_int b \<le> 2 powi (k - 1) * 2 powi (bitlen b)"
      using B(2) by (intro mult_left_mono) auto
    also have "\<dots> = 2 powi (bitlen a - 1)"
      by (simp add: k_def flip: power_int_add)
    also have "\<dots> \<le> q * of_int b" using A(1) q bq by simp
    finally show ?thesis using bq by simp
  qed
  show "2 powi (ilog2 q) \<le> q" using il lo by auto
  show "q < 2 powi (ilog2 q + 1)" using il up by (auto simp: not_le)
qed

lemma ilog2_mono:
  assumes "0 < a" "a \<le> b"
  shows "ilog2 a \<le> ilog2 b"
proof -
  have "2 powi (ilog2 a) \<le> a" using ilog2_bounds(1)[OF assms(1)] .
  also have "a \<le> b" by fact
  also have "b < 2 powi (ilog2 b + 1)" using ilog2_bounds(2)[of b] assms by simp
  finally have "(2::rat) powi (ilog2 a) < 2 powi (ilog2 b + 1)" .
  then have "ilog2 a < ilog2 b + 1"
    by (metis linorder_not_less power_int_increasing one_le_numeral)
  then show ?thesis by simp
qed

lemma round_half_even_mono:
  assumes "x \<le> y"
  shows "round_half_even x \<le> round_half_even y"
proof -
  have fm: "\<lfloor>x\<rfloor> \<le> \<lfloor>y\<rfloor>" using assms by (rule floor_mono)
  show ?thesis
  proof (cases "\<lfloor>x\<rfloor> = \<lfloor>y\<rfloor>")
    case True
    with assms show ?thesis by (auto simp: round_half_even_def Let_def)
  next
    case False
    with fm have "\<lfloor>x\<rfloor> + 1 \<le> \<lfloor>y\<rfloor>" by simp
    moreover have "round_half_even x \<le> \<lfloor>x\<rfloor> + 1" by (simp add: round_half_even_def Let_def)
    moreover have "\<lfloor>y\<rfloor> \<le> round_half_even y" by (simp add: round_half_even_def Let_def)
    ultimately show ?thesis by linarith
  qed
qed

lemma round_half_even_of_int [simp]: "round_half_even (of_int k) = k"
  by (simp add: round_half_even_def)

lemma round_half_even_nonneg: "0 \<le> x \<Longrightarrow> 0 \<le> round_half_even x"
  using round_half_even_mono[of 0 x] round_half_even_of_int[of 0] by simp


lemma ulp_pos [simp]: "0 < ulp a"
  by (simp add: ulp_def)

lemma exponent_mono: "0 < a \<Longrightarrow> a \<le> b \<Longrightarrow> exponent a \<le> exponent b"
  using ilog2_mono[of a b] by (simp add: exponent_def)

lemma ulp_shift: "2 powi (exponent a - 52 + int k) = 2 ^ k * ulp a"
  unfolding ulp_def using power_int_add[of "2::rat" "exponent a - 52" "int k"] by simp

lemma significand_nonneg: "0 \<le> a \<Longrightarrow> 0 \<le> significand a"
  unfolding significand_def
  by (rule round_half_even_nonneg) (simp add: divide_nonneg_pos)

text \<open>The scaled value stays below \<open>2^53\<close>, and reaches \<open>2^52\<close> for a normal number.\<close>

lemma scaled_less:
  assumes "0 < a"
  shows "a / ulp a < 2 ^ 53"
proof -
  have "a < 2 powi (ilog2 a + 1)" using ilog2_bounds(2)[OF assms] .
  also have "(2::rat) powi (ilog2 a + 1) \<le> 2 powi (exponent a + 1)"
    by (intro power_int_increasing) (simp_all add: exponent_def)
  also have "(2::rat) powi (exponent a + 1) = 2 ^ 53 * ulp a"
    using ulp_shift[of a 53] by (simp add: add.commute)
  finally show ?thesis by (simp add: pos_divide_less_eq)
qed

lemma significand_le: "0 < a \<Longrightarrow> significand a \<le> 2 ^ 53"
proof -
  assume "0 < a"
  then have "a / ulp a \<le> of_int (2 ^ 53)" using scaled_less[of a] by simp
  from round_half_even_mono[OF this] show ?thesis
    unfolding significand_def by (simp only: round_half_even_of_int)
qed

lemma scaled_ge:
  assumes "0 < a" "exponent a = ilog2 a"
  shows "2 ^ 52 \<le> a / ulp a"
proof -
  have "(2::rat) ^ 52 * ulp a = 2 powi (ilog2 a)"
    using ulp_shift[of a 52] assms(2) by simp
  also have "\<dots> \<le> a" using ilog2_bounds(1)[OF assms(1)] .
  finally show ?thesis by (simp add: pos_le_divide_eq)
qed

lemma significand_ge:
  assumes "0 < a" "exponent a = ilog2 a"
  shows "2 ^ 52 \<le> significand a"
proof -
  have "of_int (2 ^ 52) \<le> a / ulp a" using scaled_ge[OF assms] by simp
  from round_half_even_mono[OF this] show ?thesis
    unfolding significand_def by (simp only: round_half_even_of_int)
qed

text \<open>The rounded magnitude \<open>significand a * ulp a\<close> grows with \<open>a\<close>.\<close>

lemma magnitude_mono:
  assumes "0 < a" "a \<le> b"
  shows "of_int (significand a) * ulp a \<le> of_int (significand b) * ulp b"
proof (cases "exponent a = exponent b")
  case True
  then have u: "ulp a = ulp b" by (simp add: ulp_def)
  have "a / ulp b \<le> b / ulp b"
    using assms(2) by (intro divide_right_mono) (simp_all add: less_imp_le)
  then have "significand a \<le> significand b"
    unfolding significand_def u by (rule round_half_even_mono)
  then show ?thesis unfolding u by (simp add: mult_right_mono)
next
  case False
  with exponent_mono[OF assms] have less: "exponent a < exponent b" by simp
  have bpos: "0 < b" using assms by simp
  have nb: "exponent b = ilog2 b"
    using less by (auto simp: exponent_def max_def split: if_splits)
  have "of_int (significand a) * ulp a \<le> of_int (2 ^ 53) * ulp a"
    using significand_le[OF assms(1)] by (intro mult_right_mono) (simp_all only: of_int_le_iff ulp_pos less_imp_le)
  also have "\<dots> = 2 powi (exponent a + 1)"
    using ulp_shift[of a 53] by (simp add: add.commute)
  also have "\<dots> \<le> 2 powi (exponent b)"
    using less by (intro power_int_increasing) simp_all
  also have "\<dots> = of_int (2 ^ 52) * ulp b"
    using ulp_shift[of b 52] by simp
  also have "\<dots> \<le> of_int (significand b) * ulp b"
    using significand_ge[OF bpos nb] by (intro mult_right_mono) (simp_all only: of_int_le_iff ulp_pos less_imp_le)
  finally show ?thesis .
qed



text \<open>Rounding is monotone: \<open>p \<le> q\<close> gives \<open>fl p <= fl q\<close>.\<close>

lemma overflow_mono:
  assumes "0 < a" "a \<le> b"
    and "1023 < exponent a \<or> (exponent a = 1023 \<and> 2 ^ 53 \<le> significand a)"
  shows "1023 < exponent b \<or> (exponent b = 1023 \<and> 2 ^ 53 \<le> significand b)"
proof (cases "exponent a = exponent b")
  case True
  then have u: "ulp a = ulp b" by (simp add: ulp_def)
  have "a / ulp b \<le> b / ulp b"
    using assms(2) by (intro divide_right_mono) (simp_all add: less_imp_le)
  then have "significand a \<le> significand b"
    unfolding significand_def u by (rule round_half_even_mono)
  with assms(3) True show ?thesis by auto
next
  case False
  with exponent_mono[OF assms(1,2)] have "exponent a < exponent b" by simp
  moreover have "significand a \<le> 2 ^ 53" using significand_le[OF assms(1)] .
  ultimately show ?thesis using assms(3) by auto
qed

lemma fl_pos_cases:
  assumes "0 < q"
  shows "fl q = PInf \<and> (1023 < exponent q \<or> (exponent q = 1023 \<and> 2 ^ 53 \<le> significand q))
       \<or> fl q = Fin (of_int (significand q) * ulp q)
          \<and> \<not> (1023 < exponent q \<or> (exponent q = 1023 \<and> 2 ^ 53 \<le> significand q))"
  using assms by (auto simp: fl_def Let_def inf_of_def zero_of_def)

lemma fl_neg_cases:
  assumes "q < 0"
  shows "fl q = NInf \<and> (1023 < exponent (- q) \<or> (exponent (- q) = 1023 \<and> 2 ^ 53 \<le> significand (- q)))
       \<or> fl q = NZero \<and> significand (- q) = 0
          \<and> \<not> (1023 < exponent (- q) \<or> (exponent (- q) = 1023 \<and> 2 ^ 53 \<le> significand (- q)))
       \<or> fl q = Fin (- (of_int (significand (- q)) * ulp (- q))) \<and> significand (- q) \<noteq> 0
          \<and> \<not> (1023 < exponent (- q) \<or> (exponent (- q) = 1023 \<and> 2 ^ 53 \<le> significand (- q)))"
  using assms by (auto simp: fl_def Let_def inf_of_def zero_of_def abs_if)

lemma magnitude_nonneg: "0 \<le> a \<Longrightarrow> 0 \<le> of_int (significand a) * ulp a"
  using significand_nonneg[of a] by (simp add: less_imp_le)

lemma fl_mono_pos:
  assumes "0 < p" "p \<le> q"
  shows "le (fl p) (fl q)"
proof -
  have qpos: "0 < q" using assms by simp
  from fl_pos_cases[OF assms(1)] fl_pos_cases[OF qpos]
    overflow_mono[OF assms] magnitude_mono[OF assms]
  show ?thesis by (auto simp: le_def)
qed

lemma fl_mono_neg:
  assumes "q < 0" "p \<le> q"
  shows "le (fl p) (fl q)"
proof -
  have ppos: "p < 0" using assms by simp
  have a: "0 < - q" "- q \<le> - p" using assms by simp_all
  have nn: "0 \<le> of_int (significand (- p)) * ulp (- p)"
    using ppos by (intro magnitude_nonneg) simp
  from fl_neg_cases[OF assms(1)] fl_neg_cases[OF ppos]
    overflow_mono[OF a] magnitude_mono[OF a] nn
  show ?thesis by (auto simp: le_def)
qed

lemma fl_nonneg: "0 \<le> q \<Longrightarrow> le (Fin 0) (fl q)"
proof (cases "q = 0")
  case True
  then show ?thesis by (simp add: fl_def le_def)
next
  case False
  assume "0 \<le> q"
  with False have "0 < q" by simp
  from fl_pos_cases[OF this] magnitude_nonneg[of q] \<open>0 \<le> q\<close>
  show ?thesis by (auto simp: le_def not_less)
qed

lemma fl_nonpos: "q \<le> 0 \<Longrightarrow> le (fl q) (Fin 0)"
proof (cases "q = 0")
  case True
  then show ?thesis by (simp add: fl_def le_def)
next
  case False
  assume "q \<le> 0"
  with False have "q < 0" by simp
  from fl_neg_cases[OF this] magnitude_nonneg[of "- q"] \<open>q \<le> 0\<close>
  show ?thesis by (auto simp: le_def not_less)
qed

lemma fl_not_NaN [simp]: "fl q \<noteq> NaN"
  by (auto simp: fl_def Let_def inf_of_def zero_of_def)

lemma js_le_trans: "le x y \<Longrightarrow> le y z \<Longrightarrow> le x z"
  by (cases x; cases y; cases z) (auto simp: le_def)

lemma js_le_lt_trans: "le x y \<Longrightarrow> lt y z \<Longrightarrow> lt x z"
  by (cases x; cases y; cases z) (auto simp: le_def)

lemma js_lt_le_trans: "lt x y \<Longrightarrow> le y z \<Longrightarrow> lt x z"
  by (cases x; cases y; cases z) (auto simp: le_def)

lemma js_le_not_lt: "le x y \<Longrightarrow> \<not> lt y x"
  by (simp add: le_def)

lemma fl_mono:
  assumes "p \<le> q"
  shows "le (fl p) (fl q)"
proof -
  consider "0 < p" | "q < 0" | "p \<le> 0" "0 \<le> q" by linarith
  then show ?thesis
  proof cases
    case 1
    then show ?thesis using assms by (rule fl_mono_pos)
  next
    case 2
    then show ?thesis using assms by (rule fl_mono_neg)
  next
    case 3
    from fl_nonpos[OF 3(1)] fl_nonneg[OF 3(2)] show ?thesis by (rule js_le_trans)
  qed
qed


section \<open>Properties of the day count\<close>

text \<open>
  The day count of \<open>_daysUntilDate\<close> is below 1 for a date in the past, and at least 7
  for a date seven days or more ahead: the subtraction and the division round, and
  rounding keeps the order.
\<close>

lemma msPerDay_eq: "msPerDay = Fin 86400000"
  by code_simp

lemma fl_m1: "fl (- 1) = Fin (- 1)"
  by code_simp

lemma fl_7: "fl 7 = Fin 7"
  by code_simp

lemma fl_week: "fl 604800000 = Fin 604800000"
  by code_simp

lemma le_Fin_cases:
  assumes "le x (Fin c)"
  shows "x = NInf \<or> (x = NZero \<and> 0 \<le> c) \<or> (\<exists>r. x = Fin r \<and> r \<le> c)"
  using assms by (cases x) (auto simp: le_def)

lemma Fin_le_cases:
  assumes "le (Fin c) x"
  shows "x = PInf \<or> (x = NZero \<and> c \<le> 0) \<or> (\<exists>r. x = Fin r \<and> c \<le> r)"
  using assms by (cases x) (auto simp: le_def)

lemma sub_Fin: "a \<noteq> b \<Longrightarrow> sub (Fin a) (Fin b) = fl (a - b)"
  by (simp add: sub_def add_def)

lemma divide_Fin: "a \<noteq> 0 \<Longrightarrow> b \<noteq> 0 \<Longrightarrow> divide (Fin a) (Fin b) = fl (a / b)"
  by (simp add: divide_def)

lemma divide_NInf: "0 < b \<Longrightarrow> divide NInf (Fin b) = NInf"
  by (simp add: divide_def inf_of_def)

lemma divide_PInf: "0 < b \<Longrightarrow> divide PInf (Fin b) = PInf"
  by (simp add: divide_def inf_of_def)

lemma days_past:
  assumes "d < now"
  shows "lt (daysUntilDate (Some d) now) (Fin 1)"
proof -
  let ?s = "of_int d - of_int now :: rat"
  have "d - now \<le> - 1" using assms by simp
  then have "(of_int (d - now) :: rat) \<le> of_int (- 1)" by (simp only: of_int_le_iff)
  then have s: "?s \<le> - 1" by simp
  have ne: "(of_int d :: rat) \<noteq> of_int now" using assms by simp
  have diff: "sub (Fin (of_int d)) (Fin (of_int now)) = fl ?s"
    using ne by (rule sub_Fin)
  have "le (fl ?s) (Fin (- 1))" using fl_mono[OF s] by (simp only: fl_m1)
  from le_Fin_cases[OF this]
  consider "fl ?s = NInf" | r where "fl ?s = Fin r" "r \<le> - 1" by auto
  then have "lt (Math_ceil (divide (fl ?s) (Fin 86400000))) (Fin 1)"
  proof cases
    case 1
    then show ?thesis by (simp add: divide_NInf)
  next
    case (2 r)
    have q: "divide (Fin r) (Fin 86400000) = fl (r / 86400000)"
      using 2(2) by (intro divide_Fin) auto
    have "r / 86400000 \<le> 0" using 2(2) by simp
    from le_Fin_cases[OF fl_nonpos[OF this]]
    consider "fl (r / 86400000) = NInf" | "fl (r / 86400000) = NZero"
      | r' where "fl (r / 86400000) = Fin r'" "r' \<le> 0" by auto
    then show ?thesis
    proof cases
      case (3 r')
      have "\<lceil>r'\<rceil> \<le> 0" using 3(2) by (simp add: ceiling_le_iff)
      then have "(of_int \<lceil>r'\<rceil> :: rat) < 1" by simp
      then show ?thesis using 2(1) q 3(1) by simp
    qed (simp_all add: 2(1) q)
  qed
  then show ?thesis by (simp add: daysUntilDate_def diff msPerDay_eq)
qed

lemma days_future:
  assumes "now + 604800000 \<le> d"
  shows "le (Fin 7) (daysUntilDate (Some d) now)"
proof -
  let ?s = "of_int d - of_int now :: rat"
  have "604800000 \<le> d - now" using assms by simp
  then have "(of_int 604800000 :: rat) \<le> of_int (d - now)" by (simp only: of_int_le_iff)
  then have s: "604800000 \<le> ?s" by simp
  have ne: "(of_int d :: rat) \<noteq> of_int now" using assms by simp
  have diff: "sub (Fin (of_int d)) (Fin (of_int now)) = fl ?s"
    using ne by (rule sub_Fin)
  have "le (Fin 604800000) (fl ?s)" using fl_mono[OF s] by (simp only: fl_week)
  from Fin_le_cases[OF this]
  consider "fl ?s = PInf" | r where "fl ?s = Fin r" "604800000 \<le> r" by auto
  then have "le (Fin 7) (Math_ceil (divide (fl ?s) (Fin 86400000)))"
  proof cases
    case 1
    then show ?thesis by (simp add: divide_PInf le_def)
  next
    case (2 r)
    have q: "divide (Fin r) (Fin 86400000) = fl (r / 86400000)"
      using 2(2) by (intro divide_Fin) auto
    have "7 \<le> r / 86400000" using 2(2) by simp
    from fl_mono[OF this] have "le (Fin 7) (fl (r / 86400000))" by (simp only: fl_7)
    from Fin_le_cases[OF this]
    consider "fl (r / 86400000) = PInf"
      | r' where "fl (r / 86400000) = Fin r'" "7 \<le> r'" by auto
    then show ?thesis
    proof cases
      case (2 r')
      have "7 \<le> \<lceil>r'\<rceil>" using 2(2) by (simp add: le_ceiling_iff)
      then have "(7::rat) \<le> of_int \<lceil>r'\<rceil>" by (metis of_int_le_iff of_int_numeral)
      then show ?thesis using \<open>fl ?s = Fin r\<close> q 2 by (simp add: le_def not_less)
    qed (simp add: \<open>fl ?s = Fin r\<close> q le_def)
  qed
  then show ?thesis by (simp add: daysUntilDate_def diff msPerDay_eq)
qed


section \<open>Properties of the PulseScore\<close>

lemma fl_5_100: "fl (1/20) = Fin (3602879701896397 / 72057594037927936)"
  by code_simp

lemma fl_2_100: "fl (1/50) = Fin (5764607523034235 / 288230376151711744)"
  by code_simp

lemma fl_1_100: "fl (1/100) = Fin (5764607523034235 / 576460752303423488)"
  by code_simp

lemma fl_8_10: "fl (4/5) = Fin (3602879701896397 / 4503599627370496)"
  by code_simp

lemma fl_95_100: "fl (19/20) = Fin (4278419646001971 / 4503599627370496)"
  by code_simp

lemma lt_irrefl [simp]: "\<not> lt x x"
  by (cases x) auto

lemma ge_le: "ge x y = le y x"
  by (auto simp: ge_def le_def)

lemma liveness_bounds: "score - 30 \<le> liveness p score \<and> liveness p score \<le> score"
  by (simp add: liveness_def split: option.split)

lemma not_Falcon: "protocol p \<noteq> ''Falcon'' \<Longrightarrow> temporalRiskFalcon p score = score"
  by (simp add: temporalRiskFalcon_def)

lemma not_Ethena: "protocol p \<noteq> ''Ethena'' \<Longrightarrow> depegDeviation p score = score"
  by (simp add: depegDeviation_def)

lemma not_Pendle: "protocol p \<noteq> ''Pendle'' \<Longrightarrow> temporalRiskPendle now p score = score"
  by (simp add: temporalRiskPendle_def)

text \<open>
  Claim C5: \<open>calculatePulseScore\<close> applied to an absent (null) metrics input returns 0,
  a value and not an exception.
\<close>

theorem C5_score_null: "calculatePulseScore now None = 0"
  by (simp add: calculatePulseScore_def)

text \<open>
  Claim C1: for every metrics input, of any variant and with any field values,
  \<open>calculatePulseScore\<close> returns an integer between 0 and 100; for Ethena metrics
  with \<open>fundingRate = 1.0\<close>, \<open>depegRisk = 1.0\<close> and \<open>confidence = 0\<close> the score is
  exactly 35.
\<close>

theorem C1_score_range:
  "0 \<le> calculatePulseScore now pd \<and> calculatePulseScore now pd \<le> 100 \<and>
   calculatePulseScore now'
     (Some \<lparr>protocol = ''Ethena'', maturityDate = md, cooldownDays = cd,
            fundingRate = Some (Fin 1), depegRisk = Some (Fin 1),
            confidence = Some (Fin 0)\<rparr>) = 35"
proof -
  have range: "0 \<le> calculatePulseScore now pd \<and> calculatePulseScore now pd \<le> 100"
    by (cases pd) (simp_all add: calculatePulseScore_def Let_def)
  have ex: "calculatePulseScore now'
     (Some \<lparr>protocol = ''Ethena'', maturityDate = md, cooldownDays = cd,
            fundingRate = Some (Fin 1), depegRisk = Some (Fin 1),
            confidence = Some (Fin 0)\<rparr>) = 35"
    by (simp add: calculatePulseScore_def temporalRiskPendle_def temporalRiskFalcon_def
        depegDeviation_def liveness_def Let_def gt_def fl_5_100 fl_2_100 fl_1_100 fl_8_10)
  from range ex show ?thesis by simp
qed

text \<open>
  Claim C6: for Pendle metrics whose maturity date lies strictly in the past, relative
  to the current time the engine reads, the day count (the ceiling of the millisecond
  difference divided by one day) is below 1 and the temporal-risk factor subtracts its
  maximum of 30 points: the score is what the liveness factor leaves of 70.
\<close>

theorem C6_overdue_maturity:
  assumes "protocol p = ''Pendle''" and "maturityDate p = Some d" and "d < now"
  shows "lt (daysUntilDate (maturityDate p) now) (Fin 1) \<and>
         temporalRiskPendle now p score = score - 30 \<and>
         calculatePulseScore now (Some p) = liveness p 70"
proof -
  have days: "lt (daysUntilDate (maturityDate p) now) (Fin 1)"
    using days_past[OF assms(3)] assms(2) by simp
  then have pen: "temporalRiskPendle now p s = s - 30" for s
    using assms(1) by (simp add: temporalRiskPendle_def)
  have f: "temporalRiskFalcon p s = s" and e: "depegDeviation p s = s" for s
    using assms(1) by (simp_all add: not_Falcon not_Ethena)
  have "calculatePulseScore now (Some p) = max 0 (min 100 (liveness p 70))"
    by (simp add: calculatePulseScore_def pen f e)
  also have "\<dots> = liveness p 70"
    using liveness_bounds[of 70 p] by simp
  finally show ?thesis using days pen by simp
qed

text \<open>An overdue Pendle position without a confidence value scores 70.\<close>

theorem C6_overdue_maturity_witness:
  "calculatePulseScore 1000
     (Some \<lparr>protocol = ''Pendle'', maturityDate = Some 999, cooldownDays = None,
            fundingRate = None, depegRisk = None, confidence = None\<rparr>) = 70"
  using C6_overdue_maturity
    [of "\<lparr>protocol = ''Pendle'', maturityDate = Some 999, cooldownDays = None,
          fundingRate = None, depegRisk = None, confidence = None\<rparr>" 999 1000]
  by (simp add: liveness_def)

text \<open>
  Claim C7: for Pendle metrics with \<open>confidence >= 0.95\<close> and a maturity date at least
  seven whole days after the current time, the score is exactly 100: no temporal
  penalty, no liveness penalty, and no de-peg penalty for this variant.
\<close>

theorem C7_pendle_full_score:
  assumes "protocol p = ''Pendle''"
    and "confidence p = Some c" and "ge c (fl (95/100))"
    and "maturityDate p = Some d" and "now + 7 * 86400000 \<le> d"
  shows "calculatePulseScore now (Some p) = 100"
proof -
  have "le (Fin 7) (daysUntilDate (maturityDate p) now)"
    using days_future[of now d] assms(4,5) by simp
  then have d7: "\<not> lt (daysUntilDate (maturityDate p) now) (Fin 7)"
    by (rule js_le_not_lt)
  have "le (Fin 1) (Fin 7)" "le (Fin 3) (Fin 7)" by (simp_all add: le_def)
  then have "le (Fin 1) (daysUntilDate (maturityDate p) now)"
    "le (Fin 3) (daysUntilDate (maturityDate p) now)"
    using \<open>le (Fin 7) (daysUntilDate (maturityDate p) now)\<close> by (blast intro: js_le_trans)+
  then have d1: "\<not> lt (daysUntilDate (maturityDate p) now) (Fin 1)"
    and d3: "\<not> lt (daysUntilDate (maturityDate p) now) (Fin 3)"
    by (blast dest: js_le_not_lt)+
  have pen: "temporalRiskPendle now p s = s" for s
    using d1 d3 d7 by (simp add: temporalRiskPendle_def)
  have f: "temporalRiskFalcon p s = s" and e: "depegDeviation p s = s" for s
    using assms(1) by (simp_all add: not_Falcon not_Ethena)
  have c95: "le (fl (95/100)) c" using assms(3) by (simp only: ge_le)
  have "le (fl (8/10)) (fl (95/100))" "le (fl (9/10)) (fl (95/100))"
    by (rule fl_mono, simp)+
  then have "le (fl (8/10)) c" "le (fl (9/10)) c"
    using c95 by (blast intro: js_le_trans)+
  then have "\<not> lt c (fl (8/10))" "\<not> lt c (fl (9/10))" "\<not> lt c (fl (95/100))"
    using c95 by (blast dest: js_le_not_lt)+
  then have l: "liveness p s = s" for s
    using assms(2) by (simp add: liveness_def)
  show ?thesis by (simp add: calculatePulseScore_def pen f e l)
qed

text \<open>Maturity exactly seven days ahead, confidence 1.\<close>

theorem C7_pendle_full_score_witness:
  "calculatePulseScore 0
     (Some \<lparr>protocol = ''Pendle'', maturityDate = Some 604800000, cooldownDays = None,
            fundingRate = None, depegRisk = None, confidence = Some (Fin 1)\<rparr>) = 100"
  using C7_pendle_full_score
    [of "\<lparr>protocol = ''Pendle'', maturityDate = Some 604800000, cooldownDays = None,
          fundingRate = None, depegRisk = None, confidence = Some (Fin 1)\<rparr>" "Fin 1" 604800000 0]
  by (simp add: ge_def fl_95_100)

text \<open>
  Claim C10: for Ethena metrics whose \<open>depegRisk\<close> is absent or zero the default
  \<open>0.01\<close> is substituted; \<open>0.01\<close> does not exceed the strict \<open>> 0.01\<close> threshold, so the
  de-peg factor subtracts the funding-rate penalty only, and the score is that of the
  same metrics with \<open>depegRisk = 0.01\<close>.
\<close>

theorem C10_default_depeg_risk:
  assumes "protocol p = ''Ethena''"
    and "depegRisk p = None \<or> depegRisk p = Some (Fin 0) \<or> depegRisk p = Some NZero
         \<or> depegRisk p = Some (fl (1/100))"
  shows "or_default (depegRisk p) (fl (1/100)) = fl (1/100) \<and>
         depegDeviation p score =
           (let funding = Math_abs (num (fundingRate p))
            in if gt funding (fl (5/100)) then score - 20
               else if gt funding (fl (2/100)) then score - 10
               else score) \<and>
         calculatePulseScore now (Some p) =
           calculatePulseScore now (Some (p\<lparr>depegRisk := Some (fl (1/100))\<rparr>))"
proof -
  have t: "truthy (fl (1/100))" by (simp add: fl_1_100)
  have dflt: "or_default (depegRisk p) (fl (1/100)) = fl (1/100)"
    using assms(2) t by auto
  have dflt': "or_default (Some (fl (1/100))) (fl (1/100)) = fl (1/100)"
    using t by simp
  have "le (fl (1/100)) (fl (2/100))" by (rule fl_mono) simp
  then have n2: "\<not> gt (fl (1/100)) (fl (2/100))"
    unfolding gt_def by (rule js_le_not_lt)
  have n1: "\<not> gt (fl (1/100)) (fl (1/100))" by (simp add: gt_def)
  have dev: "depegDeviation q s =
      (let funding = Math_abs (num (fundingRate q))
       in if gt funding (fl (5/100)) then s - 20
          else if gt funding (fl (2/100)) then s - 10 else s)"
    if "protocol q = ''Ethena''" "or_default (depegRisk q) (fl (1/100)) = fl (1/100)" for q s
    using that n1 n2 by (simp add: depegDeviation_def Let_def)
  let ?q = "p\<lparr>depegRisk := Some (fl (1/100))\<rparr>"
  have q: "protocol ?q = ''Ethena''" "or_default (depegRisk ?q) (fl (1/100)) = fl (1/100)"
    using assms(1) dflt' by simp_all
  have same: "calculatePulseScore now (Some p) = calculatePulseScore now (Some ?q)"
    by (simp add: calculatePulseScore_def dev[OF assms(1) dflt] dev[OF q]
        temporalRiskPendle_def temporalRiskFalcon_def liveness_def)
  from dflt dev[OF assms(1) dflt] same show ?thesis by simp
qed

text \<open>An Ethena record without \<open>depegRisk\<close> against the same record with \<open>0.01\<close>.\<close>

theorem C10_default_depeg_risk_witness:
  "calculatePulseScore 0
     (Some \<lparr>protocol = ''Ethena'', maturityDate = None, cooldownDays = None,
            fundingRate = Some (Fin 0), depegRisk = None, confidence = None\<rparr>) =
   calculatePulseScore 0
     (Some \<lparr>protocol = ''Ethena'', maturityDate = None, cooldownDays = None,
            fundingRate = Some (Fin 0), depegRisk = Some (fl (1/100)), confidence = None\<rparr>)"
  using C10_default_depeg_risk
    [of "\<lparr>protocol = ''Ethena'', maturityDate = None, cooldownDays = None,
          fundingRate = Some (Fin 0), depegRisk = None, confidence = None\<rparr>" 0 0]
  by simp


section \<open>Properties of the exit comparison\<close>

text \<open>The instance of the file, with its defaults evaluated.\<close>

lemma exitOptimizer_fields:
  "slippageEstimate exitOptimizer = Fin (1152921504606847 / 288230376151711744)"
  "gasEstimate exitOptimizer = Fin 5"
  "dailyYieldRate exitOptimizer = Fin (3458764513820541 / 144115188075855872)"
  "depegRiskScenarios exitOptimizer =
     [(''best'', Fin 0), (''mid'', Fin (5764607523034235 / 1152921504606846976)),
      (''worst'', Fin (5764607523034235 / 288230376151711744))]"
  by code_simp+

lemma sub_self_not_gt: "\<not> gt (sub x x) (Fin 0)"
  by (cases x) (auto simp: sub_def add_def gt_def zero_of_def)

text \<open>
  Claim C8: for every pair of exit paths the recommendation is WAIT if and only if
  \<open>netDifference\<close>, the redemption final value minus the market final value, is
  strictly greater than 0, and EXIT_NOW otherwise; equal final values give EXIT_NOW.
\<close>

theorem C8_recommendation:
  "(recommendation (calculateLiquidityGain ts this rp mp) = ''WAIT'')
     = gt (netDifference (calculateLiquidityGain ts this rp mp)) (Fin 0) \<and>
   (recommendation (calculateLiquidityGain ts this rp mp) = ''EXIT_NOW'')
     = (\<not> gt (netDifference (calculateLiquidityGain ts this rp mp)) (Fin 0)) \<and>
   netDifference (calculateLiquidityGain ts this rp mp)
     = sub (rp_finalValue rp) (mp_finalValue mp) \<and>
   (rp_finalValue rp = mp_finalValue mp \<longrightarrow>
      recommendation (calculateLiquidityGain ts this rp mp) = ''EXIT_NOW'')"
  using sub_self_not_gt[of "mp_finalValue mp"]
  by (simp add: calculateLiquidityGain_def Let_def)

text \<open>Two paths that both end at 5.\<close>

theorem C8_recommendation_witness:
  "recommendation
     (calculateLiquidityGain integer_digits exitOptimizer
        \<lparr>rp_strategy = [], rp_amount = Fin 5, rp_nav = Fin 1, rp_finalValue = Fin 5,
         rp_yieldAccrued = Fin 0, rp_haircut = Fin 0, rp_fees = Fin 0,
         rp_cooldownDays = Fin 0, rp_timeToLiquidity = [], rp_risks = []\<rparr>
        \<lparr>mp_strategy = [], mp_amount = Fin 5, mp_price = Fin 1, mp_finalValue = Fin 5,
         mp_slippageLoss = Fin 0, mp_gasEstimate = Fin 0, mp_totalCost = Fin 0,
         mp_haircut = [], mp_timeToLiquidity = [], mp_dex = None, mp_liquidity = None,
         mp_risks = []\<rparr>) = ''EXIT_NOW''"
  using C8_recommendation
    [of integer_digits exitOptimizer
        "\<lparr>rp_strategy = [], rp_amount = Fin 5, rp_nav = Fin 1, rp_finalValue = Fin 5,
         rp_yieldAccrued = Fin 0, rp_haircut = Fin 0, rp_fees = Fin 0,
         rp_cooldownDays = Fin 0, rp_timeToLiquidity = [], rp_risks = []\<rparr>"
        "\<lparr>mp_strategy = [], mp_amount = Fin 5, mp_price = Fin 1, mp_finalValue = Fin 5,
         mp_slippageLoss = Fin 0, mp_gasEstimate = Fin 0, mp_totalCost = Fin 0,
         mp_haircut = [], mp_timeToLiquidity = [], mp_dex = None, mp_liquidity = None,
         mp_risks = []\<rparr>"]
  by simp

text \<open>The arithmetic of the example of claim C2, operation by operation.\<close>

lemma example_redemption:
  "add (mul (Fin 100) (Fin 1))
       (mul (mul (Fin 100) (Fin (3458764513820541 / 144115188075855872))) (Fin 7))
   = Fin (8219069319951155 / 70368744177664)"
  by code_simp

lemma example_market:
  "sub (sub (mul (Fin 100) (Fin 1))
            (mul (mul (Fin 100) (Fin 1)) (Fin (1152921504606847 / 288230376151711744))))
       (Fin 5)
   = Fin (3328441599603507 / 35184372088832)"
  by code_simp

lemma example_difference:
  "sub (Fin (8219069319951155 / 70368744177664)) (Fin (3328441599603507 / 35184372088832))
   = Fin (1562186120744141 / 70368744177664)"
  by code_simp

lemma fl_1168: "fl (584/5) = Fin (8219069319951155 / 70368744177664)"
  by code_simp
lemma fl_946: "fl (473/5) = Fin (3328441599603507 / 35184372088832)"
  by code_simp
lemma fl_222: "fl (111/5) = Fin (6248744482976563 / 281474976710656)"
  by code_simp


text \<open>
  Claim C2, as the code computes it: for amount 100, the redemption quote
  \<open>{nav: 1, cooldownDays: 7}\<close>, the market quote \<open>{price: 1}\<close> and the default
  configuration, the redemption path ends at 116.8 and the market path at 94.6 (the
  doubles that these decimals denote), the recommendation is WAIT, and
  \<open>netDifference\<close> is the binary64 difference of the two final values, which is
  \<open>22.2 + 1/351843720888320\<close> (printed \<open>22.200000000000003\<close>).
\<close>

theorem C2_comparator_example:
  "(let (redemptionPath, marketPath, liquidityGain) =
          compare ts exitOptimizer (Fin 100) \<lparr>rd_nav = Fin 1, rd_cooldownDays = Fin 7\<rparr>
            \<lparr>md_price = Fin 1, md_dex = dex, md_liquidity = liquidity\<rparr>
    in rp_finalValue redemptionPath = fl (1168/10) \<and>
       mp_finalValue marketPath = fl (946/10) \<and>
       netDifference liquidityGain = Fin (222/10 + 1/351843720888320) \<and>
       recommendation liquidityGain = ''WAIT'')"
proof -
  have "(222/10 + 1/351843720888320 :: rat) = 1562186120744141 / 70368744177664" by simp
  then show ?thesis
    by (simp add: compare_def calculateRedemptionPath_def calculateMarketPath_def
        calculateLiquidityGain_def Let_def exitOptimizer_fields example_redemption
        example_market example_difference fl_1168 fl_946 gt_def)
qed

text \<open>
  Claim C2 as stated has \<open>netDifference = 22.2\<close>: the difference computed is not the
  double that \<open>22.2\<close> denotes.
\<close>

theorem C2_net_difference_counterexample:
  "netDifference (snd (snd
     (compare integer_digits exitOptimizer (Fin 100) \<lparr>rd_nav = Fin 1, rd_cooldownDays = Fin 7\<rparr>
        \<lparr>md_price = Fin 1, md_dex = None, md_liquidity = Some (Fin 1000000)\<rparr>)))
   \<noteq> fl (222/10)"
  by (simp add: compare_def calculateRedemptionPath_def calculateMarketPath_def
      calculateLiquidityGain_def Let_def exitOptimizer_fields example_redemption
      example_market example_difference fl_222)


section \<open>Properties of the fixed-point strings\<close>

text \<open>
  The integer that \<open>toFixed(f)\<close> writes is within half a unit of the last digit of the
  magnitude; a number that is not finite is written by name.
\<close>

lemma toFixed_int_near:
  assumes "0 \<le> a"
  shows "\<bar>of_int (toFixed_int f a) / 10 ^ f - a\<bar> \<le> 1 / (2 * 10 ^ f)"
proof -
  let ?y = "a * 10 ^ f"
  have lo: "?y - 1/2 \<le> of_int (toFixed_int f a)"
    unfolding toFixed_int_def by linarith
  have hi: "of_int (toFixed_int f a) \<le> ?y + 1/2"
    unfolding toFixed_int_def by linarith
  have "\<bar>of_int (toFixed_int f a) - ?y\<bar> \<le> 1/2" using lo hi by linarith
  then have "\<bar>of_int (toFixed_int f a) - ?y\<bar> / 10 ^ f \<le> (1/2) / 10 ^ f"
    by (intro divide_right_mono) simp_all
  moreover have "\<bar>of_int (toFixed_int f a) - ?y\<bar> / 10 ^ f
      = \<bar>of_int (toFixed_int f a) / 10 ^ f - a\<bar>"
  proof -
    have "\<bar>of_int (toFixed_int f a) / 10 ^ f - a\<bar>
        = \<bar>(of_int (toFixed_int f a) - ?y) / 10 ^ f\<bar>"
      by (simp add: diff_divide_distrib)
    also have "\<dots> = \<bar>of_int (toFixed_int f a) - ?y\<bar> / 10 ^ f"
      by (simp only: abs_divide) simp
    finally show ?thesis by simp
  qed
  ultimately show ?thesis by simp
qed

lemma toFixed_finite:
  assumes "\<bar>r\<bar> < 10 ^ 21"
  shows "toFixed ts f (Fin r) = (if r < 0 then ''-'' else []) @ fixed_digits f (toFixed_int f \<bar>r\<bar>)"
  using assms by (simp add: toFixed_def)

lemma divide_by_zero:
  assumes "is_zero y"
  shows "divide x y = NaN \<or> divide x y = PInf \<or> divide x y = NInf"
  using assms by (cases y; cases x) (auto simp: divide_def inf_of_def)

lemma mul_nonfinite:
  assumes "x = NaN \<or> x = PInf \<or> x = NInf"
  shows "mul x (Fin 100) = NaN \<or> mul x (Fin 100) = PInf \<or> mul x (Fin 100) = NInf"
  using assms by (auto simp: mul_def inf_of_def)

lemma toFixed_nonfinite:
  assumes "x = NaN \<or> x = PInf \<or> x = NInf"
  shows "toFixed ts f x = ''NaN'' \<or> toFixed ts f x = ''Infinity'' \<or> toFixed ts f x = ''-Infinity''"
  using assms by (auto simp: toFixed_def)

text \<open>
  Claim C3, as the code computes it: \<open>percentDifference\<close> is the string that
  \<open>toFixed(2)\<close> makes of \<open>netDifference / redemptionPath.finalValue * 100\<close>. When that
  number is finite and below \<open>10^21\<close> in magnitude, the string writes the multiple of
  0.01 nearest to it, at most 0.005 away. A zero \<open>finalValue\<close> is not treated apart:
  the division then yields \<open>NaN\<close> or an infinity, and the string is its name.
\<close>

theorem C3_percent_difference:
  "percentDifference (calculateLiquidityGain ts this rp mp) =
     toFixed ts 2
       (mul (divide (netDifference (calculateLiquidityGain ts this rp mp)) (rp_finalValue rp))
            (Fin 100)) \<and>
   (mul (divide (netDifference (calculateLiquidityGain ts this rp mp)) (rp_finalValue rp))
        (Fin 100) = Fin r \<and> \<bar>r\<bar> < 10 ^ 21 \<longrightarrow>
      percentDifference (calculateLiquidityGain ts this rp mp) =
        (if r < 0 then ''-'' else []) @ fixed_digits 2 (toFixed_int 2 \<bar>r\<bar>) \<and>
      \<bar>of_int (toFixed_int 2 \<bar>r\<bar>) / 100 - \<bar>r\<bar>\<bar> \<le> 1 / 200) \<and>
   (is_zero (rp_finalValue rp) \<longrightarrow>
      percentDifference (calculateLiquidityGain ts this rp mp) = ''NaN'' \<or>
      percentDifference (calculateLiquidityGain ts this rp mp) = ''Infinity'' \<or>
      percentDifference (calculateLiquidityGain ts this rp mp) = ''-Infinity'')"
proof -
  let ?lg = "calculateLiquidityGain ts this rp mp"
  let ?q = "mul (divide (netDifference ?lg) (rp_finalValue rp)) (Fin 100)"
  have eq: "percentDifference ?lg = toFixed ts 2 ?q"
    by (simp add: calculateLiquidityGain_def Let_def)
  have fin: "percentDifference ?lg = (if r < 0 then ''-'' else []) @ fixed_digits 2 (toFixed_int 2 \<bar>r\<bar>)
       \<and> \<bar>of_int (toFixed_int 2 \<bar>r\<bar>) / 100 - \<bar>r\<bar>\<bar> \<le> 1 / 200"
    if "?q = Fin r" "\<bar>r\<bar> < 10 ^ 21"
    using toFixed_finite[OF that(2), of ts 2] toFixed_int_near[of "\<bar>r\<bar>" 2] eq that(1)
    by simp
  have zero: "percentDifference ?lg = ''NaN'' \<or> percentDifference ?lg = ''Infinity''
       \<or> percentDifference ?lg = ''-Infinity''"
    if "is_zero (rp_finalValue rp)"
    unfolding eq
    by (intro toFixed_nonfinite mul_nonfinite divide_by_zero that)
  from eq fin zero show ?thesis by blast
qed

text \<open>The example of claim C2 again, and an amount of zero.\<close>

lemma example_yield:
  "mul (mul (Fin 100) (Fin (3458764513820541 / 144115188075855872))) (Fin 7)
     = Fin (4728779608739021 / 281474976710656)"
  by code_simp


lemma example_quotient:
  "mul (divide (Fin (1562186120744141 / 70368744177664))
               (Fin (8219069319951155 / 70368744177664))) (Fin 100)
     = Fin (5349952468301853 / 281474976710656)"
  by code_simp

lemma example_percent_text: "toFixed ts 2 (Fin (5349952468301853 / 281474976710656)) = ''19.01''"
  by code_simp

lemma example_percent_digits: "fixed_digits 2 (toFixed_int 2 (5349952468301853 / 281474976710656)) = ''19.01''"
  by code_simp

lemma fl_1901: "fl (1901/100) = Fin (5350839307269571 / 281474976710656)"
  by code_simp

lemma divide_5_0: "divide (Fin 5) (Fin 0) = PInf"
  by (simp add: divide_def inf_of_def)

lemma mul_PInf_100: "mul PInf (Fin 100) = PInf"
  by (simp add: mul_def inf_of_def)

lemma toFixed_PInf: "toFixed ts f PInf = ''Infinity''"
  by (simp add: toFixed_def)


lemma zero_amount_redemption:
  "add (mul (Fin 0) (Fin 1))
       (mul (mul (Fin 0) (Fin (3458764513820541 / 144115188075855872))) (Fin 7)) = Fin 0"
  by code_simp

lemma zero_amount_market:
  "sub (sub (mul (Fin 0) (Fin 1))
            (mul (mul (Fin 0) (Fin 1)) (Fin (1152921504606847 / 288230376151711744))))
       (Fin 5) = Fin (- 5)"
  by code_simp

lemma zero_amount_difference: "sub (Fin 0) (Fin (- 5)) = Fin 5"
  by code_simp

text \<open>
  For the example of claim C2 the string is \<open>19.01\<close>; for an amount of zero the
  redemption path ends at zero and the string is \<open>Infinity\<close>.
\<close>

theorem C3_percent_difference_witness:
  "percentDifference
     (calculateLiquidityGain integer_digits exitOptimizer
        (calculateRedemptionPath integer_digits exitOptimizer (Fin 100)
           \<lparr>rd_nav = Fin 1, rd_cooldownDays = Fin 7\<rparr>)
        (calculateMarketPath integer_digits exitOptimizer (Fin 100)
           \<lparr>md_price = Fin 1, md_dex = None, md_liquidity = None\<rparr>)) = ''19.01'' \<and>
   percentDifference
     (calculateLiquidityGain integer_digits exitOptimizer
        (calculateRedemptionPath integer_digits exitOptimizer (Fin 0)
           \<lparr>rd_nav = Fin 1, rd_cooldownDays = Fin 7\<rparr>)
        (calculateMarketPath integer_digits exitOptimizer (Fin 0)
           \<lparr>md_price = Fin 1, md_dex = None, md_liquidity = None\<rparr>)) = ''Infinity''"
  using C3_percent_difference
    [of integer_digits exitOptimizer
        "calculateRedemptionPath integer_digits exitOptimizer (Fin 100)
           \<lparr>rd_nav = Fin 1, rd_cooldownDays = Fin 7\<rparr>"
        "calculateMarketPath integer_digits exitOptimizer (Fin 100)
           \<lparr>md_price = Fin 1, md_dex = None, md_liquidity = None\<rparr>"
        "5349952468301853 / 281474976710656"]
    C3_percent_difference
    [of integer_digits exitOptimizer
        "calculateRedemptionPath integer_digits exitOptimizer (Fin 0)
           \<lparr>rd_nav = Fin 1, rd_cooldownDays = Fin 7\<rparr>"
        "calculateMarketPath integer_digits exitOptimizer (Fin 0)
           \<lparr>md_price = Fin 1, md_dex = None, md_liquidity = None\<rparr>"
        0]
  by (simp add: calculateRedemptionPath_def calculateMarketPath_def
      calculateLiquidityGain_def Let_def exitOptimizer_fields example_redemption
      example_market example_difference example_quotient example_percent_text example_percent_digits
      zero_amount_redemption zero_amount_market zero_amount_difference
      divide_5_0 mul_PInf_100 toFixed_PInf)

text \<open>
  Claim C3 as stated has \<open>percentDifference\<close> equal to the quotient times 100: for the
  example of claim C2 the string returned is \<open>19.01\<close>, and the number is not 19.01.
\<close>

theorem C3_percent_difference_counterexample:
  "percentDifference
     (calculateLiquidityGain integer_digits exitOptimizer
        (calculateRedemptionPath integer_digits exitOptimizer (Fin 100)
           \<lparr>rd_nav = Fin 1, rd_cooldownDays = Fin 7\<rparr>)
        (calculateMarketPath integer_digits exitOptimizer (Fin 100)
           \<lparr>md_price = Fin 1, md_dex = None, md_liquidity = None\<rparr>)) = ''19.01'' \<and>
   mul (divide
          (netDifference
             (calculateLiquidityGain integer_digits exitOptimizer
                (calculateRedemptionPath integer_digits exitOptimizer (Fin 100)
                   \<lparr>rd_nav = Fin 1, rd_cooldownDays = Fin 7\<rparr>)
                (calculateMarketPath integer_digits exitOptimizer (Fin 100)
                   \<lparr>md_price = Fin 1, md_dex = None, md_liquidity = None\<rparr>)))
          (rp_finalValue
             (calculateRedemptionPath integer_digits exitOptimizer (Fin 100)
                \<lparr>rd_nav = Fin 1, rd_cooldownDays = Fin 7\<rparr>)))
       (Fin 100)
     \<noteq> fl (1901/100)"
  by (simp add: calculateRedemptionPath_def calculateMarketPath_def
      calculateLiquidityGain_def Let_def exitOptimizer_fields example_redemption
      example_market example_difference example_quotient example_percent_text fl_1901)

text \<open>The scenario table is the same for every configuration.\<close>

lemma scenarios_of_new [simp]:
  "depegRiskScenarios (new_ExitOptimizer config) =
     [(''best'', Fin 0), (''mid'', fl (5/1000)), (''worst'', fl (2/100))]"
  by (simp add: new_ExitOptimizer_def)

lemma fl_168: "fl (84/5) = Fin (4728779608739021 / 281474976710656)"
  by code_simp

lemma worst_value:
  "add (mul (Fin 100) (sub (Fin 1) (Fin (5764607523034235 / 288230376151711744))))
       (Fin (4728779608739021 / 281474976710656))
     = Fin (8078331831595827 / 70368744177664)"
  by code_simp

lemma worst_text: "toFixed ts 2 (Fin (8078331831595827 / 70368744177664)) = ''114.80''"
  by code_simp

lemma worst_gt:
  "gt (Fin (8078331831595827 / 70368744177664)) (Fin (3328441599603507 / 35184372088832))"
  by (simp add: gt_def)

text \<open>
  Claim C4, as the code computes it: for each of the three scenarios with de-peg
  fraction \<open>d\<close> in 0, 0.005, 0.02, let \<open>r = amount * (1 - d) + yieldAccrued\<close> and
  \<open>m = marketPath.finalValue\<close>, the same for all three. The scenario reports the
  strings that \<open>toFixed(2)\<close> makes of \<open>r\<close>, of \<open>m\<close> and of \<open>r - m\<close>, and recommends
  WAIT exactly when \<open>r > m\<close>, compared before any rounding. For amount 100, yield
  accrued 16.8 and market value 94.6 the worst scenario reports \<open>114.80\<close> and WAIT.
\<close>

theorem C4_scenarios:
  "(\<forall>(key, d) \<in> set [(''best'', Fin 0), (''mid'', fl (5/1000)), (''worst'', fl (2/100))].
      let r = add (mul (rp_amount rp) (sub (Fin 1) d)) (rp_yieldAccrued rp);
          m = mp_finalValue mp;
          s = scenarioAnalysis ts (new_ExitOptimizer config) rp mp key
      in sc_redemptionValue s = toFixed ts 2 r \<and>
         sc_marketValue s = toFixed ts 2 m \<and>
         (sc_recommendation s = ''WAIT'') = gt r m \<and>
         (sc_recommendation s = ''EXIT_NOW'') = (\<not> gt r m) \<and>
         sc_gainLoss s = toFixed ts 2 (sub r m)) \<and>
   analysis (calculateLiquidityGain ts (new_ExitOptimizer config) rp mp) =
     \<lparr>bestCase = scenarioAnalysis ts (new_ExitOptimizer config) rp mp ''best'',
      midCase = scenarioAnalysis ts (new_ExitOptimizer config) rp mp ''mid'',
      worstCase = scenarioAnalysis ts (new_ExitOptimizer config) rp mp ''worst''\<rparr> \<and>
   (rp_amount rp = Fin 100 \<and> rp_yieldAccrued rp = fl (168/10) \<and> mp_finalValue mp = fl (946/10)
      \<longrightarrow> sc_redemptionValue (scenarioAnalysis ts (new_ExitOptimizer config) rp mp ''worst'')
            = ''114.80'' \<and>
          sc_recommendation (scenarioAnalysis ts (new_ExitOptimizer config) rp mp ''worst'')
            = ''WAIT'')"
proof -
  have gen: "\<forall>(key, d) \<in> set [(''best'', Fin 0), (''mid'', fl (5/1000)), (''worst'', fl (2/100))].
      let r = add (mul (rp_amount rp) (sub (Fin 1) d)) (rp_yieldAccrued rp);
          m = mp_finalValue mp;
          s = scenarioAnalysis ts (new_ExitOptimizer config) rp mp key
      in sc_redemptionValue s = toFixed ts 2 r \<and>
         sc_marketValue s = toFixed ts 2 m \<and>
         (sc_recommendation s = ''WAIT'') = gt r m \<and>
         (sc_recommendation s = ''EXIT_NOW'') = (\<not> gt r m) \<and>
         sc_gainLoss s = toFixed ts 2 (sub r m)"
    by (simp add: scenarioAnalysis_def Let_def)
  have an: "analysis (calculateLiquidityGain ts (new_ExitOptimizer config) rp mp) =
     \<lparr>bestCase = scenarioAnalysis ts (new_ExitOptimizer config) rp mp ''best'',
      midCase = scenarioAnalysis ts (new_ExitOptimizer config) rp mp ''mid'',
      worstCase = scenarioAnalysis ts (new_ExitOptimizer config) rp mp ''worst''\<rparr>"
    by (simp add: calculateLiquidityGain_def Let_def)
  have ex: "sc_redemptionValue (scenarioAnalysis ts (new_ExitOptimizer config) rp mp ''worst'')
            = ''114.80'' \<and>
          sc_recommendation (scenarioAnalysis ts (new_ExitOptimizer config) rp mp ''worst'')
            = ''WAIT''"
    if "rp_amount rp = Fin 100" "rp_yieldAccrued rp = fl (168/10)" "mp_finalValue mp = fl (946/10)"
    using that worst_text[of ts]
    by (simp add: scenarioAnalysis_def Let_def fl_2_100 fl_168 fl_946 worst_value
        worst_gt)
  from gen an ex show ?thesis by blast
qed


text \<open>The worst scenario of the example of claim C2.\<close>

theorem C4_scenarios_witness:
  "sc_redemptionValue
     (scenarioAnalysis integer_digits exitOptimizer
        (calculateRedemptionPath integer_digits exitOptimizer (Fin 100)
           \<lparr>rd_nav = Fin 1, rd_cooldownDays = Fin 7\<rparr>)
        (calculateMarketPath integer_digits exitOptimizer (Fin 100)
           \<lparr>md_price = Fin 1, md_dex = None, md_liquidity = None\<rparr>) ''worst'') = ''114.80'' \<and>
   sc_recommendation
     (scenarioAnalysis integer_digits exitOptimizer
        (calculateRedemptionPath integer_digits exitOptimizer (Fin 100)
           \<lparr>rd_nav = Fin 1, rd_cooldownDays = Fin 7\<rparr>)
        (calculateMarketPath integer_digits exitOptimizer (Fin 100)
           \<lparr>md_price = Fin 1, md_dex = None, md_liquidity = None\<rparr>) ''worst'') = ''WAIT''"
  using C4_scenarios
    [of "calculateRedemptionPath integer_digits exitOptimizer (Fin 100)
           \<lparr>rd_nav = Fin 1, rd_cooldownDays = Fin 7\<rparr>"
        "calculateMarketPath integer_digits exitOptimizer (Fin 100)
           \<lparr>md_price = Fin 1, md_dex = None, md_liquidity = None\<rparr>"
        integer_digits
        "\<lparr>cfg_slippageEstimate = Some (fl (4/1000)), cfg_gasEstimate = Some (Fin 5),
          cfg_dailyYieldRate = Some (fl (24/1000))\<rparr>"]
  unfolding exitOptimizer_def [symmetric]
  by (simp add: calculateRedemptionPath_def calculateMarketPath_def Let_def
      exitOptimizer_fields example_yield example_market fl_168 fl_946 fl_2_100
      worst_value worst_text worst_gt)


text \<open>
  An exit of 100 at a market price of 1.0542 without cooldown: the market path ends at
  99.99832.
\<close>

lemma fl_price: "fl (5271/5000) = Fin (4747694727173977 / 4503599627370496)"
  by code_simp

lemma no_cooldown_yield:
  "mul (mul (Fin 100) (Fin (3458764513820541 / 144115188075855872))) (Fin 0) = Fin 0"
  by code_simp

lemma no_cooldown_market:
  "sub (sub (mul (Fin 100) (Fin (4747694727173977 / 4503599627370496)))
            (mul (mul (Fin 100) (Fin (4747694727173977 / 4503599627370496)))
                 (Fin (1152921504606847 / 288230376151711744))))
       (Fin 5) = Fin (3518378099138091 / 35184372088832)"
  by code_simp

lemma no_cooldown_best: "add (mul (Fin 100) (sub (Fin 1) (Fin 0))) (Fin 0) = Fin 100"
  by code_simp

lemma no_cooldown_gain:
  "sub (Fin 100) (Fin (3518378099138091 / 35184372088832)) = Fin (59109745109 / 35184372088832)"
  by code_simp

lemma no_cooldown_texts:
  "toFixed ts 2 (Fin 100) = ''100.00''"
  "toFixed ts 2 (Fin (3518378099138091 / 35184372088832)) = ''100.00''"
  "toFixed ts 2 (Fin (59109745109 / 35184372088832)) = ''0.00''"
  by code_simp+

text \<open>
  Claim C4 as stated has the reported values equal to \<open>r\<close>, \<open>m\<close> and \<open>r - m\<close>, and WAIT
  exactly when the reported redemption value exceeds the reported market value. In
  the best scenario of this exit both reported values are \<open>100.00\<close> and the reported
  gain is \<open>0.00\<close>, while the market path does not end at 100 and the recommendation
  is WAIT.
\<close>

theorem C4_scenarios_counterexample:
  "sc_redemptionValue
     (bestCase (analysis
        (calculateLiquidityGain integer_digits exitOptimizer
           (calculateRedemptionPath integer_digits exitOptimizer (Fin 100)
              \<lparr>rd_nav = Fin 1, rd_cooldownDays = Fin 0\<rparr>)
           (calculateMarketPath integer_digits exitOptimizer (Fin 100)
              \<lparr>md_price = fl (10542/10000), md_dex = None, md_liquidity = None\<rparr>)))) = ''100.00'' \<and>
   sc_marketValue
     (bestCase (analysis
        (calculateLiquidityGain integer_digits exitOptimizer
           (calculateRedemptionPath integer_digits exitOptimizer (Fin 100)
              \<lparr>rd_nav = Fin 1, rd_cooldownDays = Fin 0\<rparr>)
           (calculateMarketPath integer_digits exitOptimizer (Fin 100)
              \<lparr>md_price = fl (10542/10000), md_dex = None, md_liquidity = None\<rparr>)))) = ''100.00'' \<and>
   sc_recommendation
     (bestCase (analysis
        (calculateLiquidityGain integer_digits exitOptimizer
           (calculateRedemptionPath integer_digits exitOptimizer (Fin 100)
              \<lparr>rd_nav = Fin 1, rd_cooldownDays = Fin 0\<rparr>)
           (calculateMarketPath integer_digits exitOptimizer (Fin 100)
              \<lparr>md_price = fl (10542/10000), md_dex = None, md_liquidity = None\<rparr>)))) = ''WAIT'' \<and>
   sc_gainLoss
     (bestCase (analysis
        (calculateLiquidityGain integer_digits exitOptimizer
           (calculateRedemptionPath integer_digits exitOptimizer (Fin 100)
              \<lparr>rd_nav = Fin 1, rd_cooldownDays = Fin 0\<rparr>)
           (calculateMarketPath integer_digits exitOptimizer (Fin 100)
              \<lparr>md_price = fl (10542/10000), md_dex = None, md_liquidity = None\<rparr>)))) = ''0.00'' \<and>
   mp_finalValue
     (calculateMarketPath integer_digits exitOptimizer (Fin 100)
             \<lparr>md_price = fl (10542/10000), md_dex = None, md_liquidity = None\<rparr>) \<noteq> Fin 100"
  by (simp add: calculateRedemptionPath_def calculateMarketPath_def
      calculateLiquidityGain_def scenarioAnalysis_def Let_def exitOptimizer_fields
      fl_price no_cooldown_yield no_cooldown_market no_cooldown_best no_cooldown_gain
      no_cooldown_texts gt_def)

section \<open>Properties of the tax export\<close>

text \<open>
  Doubling the quotes changes no other character; the line feeds of the text are those
  that join the rows, as long as no cell holds one.
\<close>

lemma set_escapeQuotes [simp]: "set (escapeQuotes s) = set s"
  by (induction s) (auto simp: escapeQuotes_def)

lemma escapeQuotes_append: "escapeQuotes (s @ t) = escapeQuotes s @ escapeQuotes t"
  by (simp add: escapeQuotes_def)

lemma escapeQuotes_id: "CHR 0x22 \<notin> set s \<Longrightarrow> escapeQuotes s = s"
  by (induction s) (auto simp: escapeQuotes_def)

lemma count_quotes_escape:
  "length (filter (\<lambda>c. c = CHR 0x22) (escapeQuotes s)) = 2 * length (filter (\<lambda>c. c = CHR 0x22) s)"
  by (induction s) (auto simp: escapeQuotes_def)

lemma csvCell_eq:
  "csvCell ts v =
     (if CHR '','' \<in> set (toStr ts v)
      then [CHR 0x22] @ escapeQuotes (toStr ts v) @ [CHR 0x22]
      else escapeQuotes (toStr ts v))"
  by (simp add: csvCell_def Let_def)

lemma csvCell_plain:
  "CHR '','' \<notin> set s \<Longrightarrow> CHR 0x22 \<notin> set s \<Longrightarrow> csvCell ts (JStr s) = s"
  by (simp add: csvCell_eq toStr_def escapeQuotes_id)

lemma count_join:
  "length (filter P (join sep xs)) =
     sum_list (map (\<lambda>x. length (filter P x)) xs) + (length xs - 1) * length (filter P sep)"
  by (induction sep xs rule: join.induct) simp_all

lemma csvCell_no_LF:
  "CHR 0x0A \<notin> set (toStr ts v) \<Longrightarrow> filter (\<lambda>c. c = CHR 0x0A) (csvCell ts v) = []"
  by (auto simp: csvCell_eq filter_empty_conv)

lemma line_no_LF:
  assumes "\<forall>v \<in> set row. CHR 0x0A \<notin> set (toStr ts v)"
  shows "length (filter (\<lambda>c. c = CHR 0x0A) (join '','' (map (csvCell ts) row))) = 0"
proof -
  have "sum_list (map (\<lambda>x. length (filter (\<lambda>c. c = CHR 0x0A) x)) (map (csvCell ts) row)) = 0"
    using assms by (induction row) (simp_all add: csvCell_no_LF)
  then show ?thesis by (simp add: count_join)
qed

lemma header_no_LF:
  assumes "CHR 0x0A \<notin> set currency"
  shows "\<forall>v \<in> set (csvHeader currency). CHR 0x0A \<notin> set (toStr ts v)"
  using assms by (simp add: csvHeader_def toStr_def)

lemma header_line:
  assumes "CHR '','' \<notin> set currency" "CHR 0x22 \<notin> set currency"
  shows "join '','' (map (csvCell ts) (csvHeader currency)) =
    ''Timestamp,Asset,Protocol,Reward Amount (Crypto),Value at Receipt ('' @ currency
      @ ''),Exchange Rate,Tax Liability,Risk Score at Time''"
  using assms by (simp add: csvHeader_def csvCell_plain)

lemma count_lines:
  assumes "\<forall>row \<in> set rows. \<forall>v \<in> set row. CHR 0x0A \<notin> set (toStr ts v)"
  shows "length (filter (\<lambda>c. c = CHR 0x0A)
           (join [CHR 0x0A] (map (\<lambda>row. join '','' (map (csvCell ts) row)) rows)))
         = length rows - 1"
proof -
  have "sum_list (map (\<lambda>x. length (filter (\<lambda>c. c = CHR 0x0A) x))
           (map (\<lambda>row. join '','' (map (csvCell ts) row)) rows)) = 0"
    using assms by (induction rows) (simp_all add: line_no_LF)
  then show ?thesis by (simp add: count_join)
qed

text \<open>
  Claim C9, as the code computes it: the text is the rows joined by line feeds and the
  cells of a row joined by commas. The first row is the header, whose columns read
  Timestamp, Asset, Protocol, Reward Amount (Crypto), Value at Receipt (currency),
  Exchange Rate, Tax Liability, Risk Score at Time; one row of eight cells follows for
  each logged record, so that the text has as many line feeds as records when no cell
  holds one. In every cell each double quote is doubled, and a cell that holds a comma
  is put between double quotes.
\<close>

theorem C9_tax_csv:
  "generateTaxCSV ts this currency =
     join [CHR 0x0A]
       (join '','' (map (csvCell ts) (csvHeader currency))
        # map (\<lambda>entry. join '','' (map (csvCell ts) (csvRow ts this entry))) (yieldLogs this)) \<and>
   (CHR '','' \<notin> set currency \<and> CHR 0x22 \<notin> set currency \<longrightarrow>
      join '','' (map (csvCell ts) (csvHeader currency)) =
        ''Timestamp,Asset,Protocol,Reward Amount (Crypto),Value at Receipt ('' @ currency
          @ ''),Exchange Rate,Tax Liability,Risk Score at Time'') \<and>
   length (csvRow ts this entry) = 8 \<and>
   (CHR 0x0A \<notin> set currency \<and>
    (\<forall>e \<in> set (yieldLogs this). \<forall>v \<in> set (csvRow ts this e). CHR 0x0A \<notin> set (toStr ts v)) \<longrightarrow>
      length (filter (\<lambda>c. c = CHR 0x0A) (generateTaxCSV ts this currency))
        = length (yieldLogs this)) \<and>
   csvCell ts cell =
     (if CHR '','' \<in> set (toStr ts cell)
      then [CHR 0x22] @ escapeQuotes (toStr ts cell) @ [CHR 0x22]
      else escapeQuotes (toStr ts cell)) \<and>
   escapeQuotes [] = [] \<and>
   escapeQuotes (c # s) = (if c = CHR 0x22 then [CHR 0x22, CHR 0x22] else [c]) @ escapeQuotes s"
proof -
  have csv: "generateTaxCSV ts this currency =
     join [CHR 0x0A]
       (join '','' (map (csvCell ts) (csvHeader currency))
        # map (\<lambda>entry. join '','' (map (csvCell ts) (csvRow ts this entry))) (yieldLogs this))"
    by (simp add: generateTaxCSV_def Let_def comp_def)
  have lines: "length (filter (\<lambda>c. c = CHR 0x0A) (generateTaxCSV ts this currency))
        = length (yieldLogs this)"
    if "CHR 0x0A \<notin> set currency"
      "\<forall>e \<in> set (yieldLogs this). \<forall>v \<in> set (csvRow ts this e). CHR 0x0A \<notin> set (toStr ts v)"
  proof -
    have "\<forall>row \<in> set (csvHeader currency # map (csvRow ts this) (yieldLogs this)).
            \<forall>v \<in> set row. CHR 0x0A \<notin> set (toStr ts v)"
      using header_no_LF[OF that(1), of ts] that(2) by auto
    from count_lines[OF this] show ?thesis
      by (simp add: generateTaxCSV_def Let_def)
  qed
  have cells: "length (csvRow ts this entry) = 8"
    by (simp add: csvRow_def Let_def)
  have esc: "escapeQuotes [] = []"
    "escapeQuotes (c # s) = (if c = CHR 0x22 then [CHR 0x22, CHR 0x22] else [c]) @ escapeQuotes s"
    by (simp_all add: escapeQuotes_def)
  from csv header_line[of currency ts] cells lines csvCell_eq[of ts cell] esc
  show ?thesis by blast
qed

text \<open>One record whose timestamp holds a comma.\<close>

lemma example_row:
  "csvRow integer_digits
     \<lparr>userLocation = ''KE'',
      yieldLogs = [\<lparr>Timestamp = JStr ''2024-01-01, 10:00'', Asset = JStr ''USDe'',
                    Protocol = JStr ''Ethena'', RewardAmount = Fin (3/2),
                    ExchangeRate = Fin 130, RiskScore = JNum (Fin 85)\<rparr>]\<rparr>
     \<lparr>Timestamp = JStr ''2024-01-01, 10:00'', Asset = JStr ''USDe'',
      Protocol = JStr ''Ethena'', RewardAmount = Fin (3/2),
      ExchangeRate = Fin 130, RiskScore = JNum (Fin 85)\<rparr>
   = [JStr ''2024-01-01, 10:00'', JStr ''USDe'', JStr ''Ethena'', JStr ''1.50000000'',
      JStr ''195.00'', JStr ''130.0000'', JStr ''58.50'', JNum (Fin 85)]"
  by code_simp

lemma toStr_JStr [simp]: "toStr ts (JStr s) = s"
  by (simp add: toStr_def)

lemma example_score: "toStr integer_digits (JNum (Fin 85)) = ''85''"
  by code_simp

theorem C9_tax_csv_witness:
  "generateTaxCSV integer_digits
     \<lparr>userLocation = ''KE'',
      yieldLogs = [\<lparr>Timestamp = JStr ''2024-01-01, 10:00'', Asset = JStr ''USDe'',
                    Protocol = JStr ''Ethena'', RewardAmount = Fin (3/2),
                    ExchangeRate = Fin 130, RiskScore = JNum (Fin 85)\<rparr>]\<rparr> ''KES''
   = ''Timestamp,Asset,Protocol,Reward Amount (Crypto),Value at Receipt (KES),Exchange Rate,Tax Liability,Risk Score at Time''
     @ [CHR 0x0A] @ [CHR 0x22] @ ''2024-01-01, 10:00'' @ [CHR 0x22]
     @ '',USDe,Ethena,1.50000000,195.00,130.0000,58.50,85'' \<and>
   length (filter (\<lambda>c. c = CHR 0x0A)
     (generateTaxCSV integer_digits
        \<lparr>userLocation = ''KE'',
         yieldLogs = [\<lparr>Timestamp = JStr ''2024-01-01, 10:00'', Asset = JStr ''USDe'',
                       Protocol = JStr ''Ethena'', RewardAmount = Fin (3/2),
                       ExchangeRate = Fin 130, RiskScore = JNum (Fin 85)\<rparr>]\<rparr> ''KES'')) = 1"
  using C9_tax_csv
    [of integer_digits
        "\<lparr>userLocation = ''KE'',
          yieldLogs = [\<lparr>Timestamp = JStr ''2024-01-01, 10:00'', Asset = JStr ''USDe'',
                        Protocol = JStr ''Ethena'', RewardAmount = Fin (3/2),
                        ExchangeRate = Fin 130, RiskScore = JNum (Fin 85)\<rparr>]\<rparr>"
        "''KES''"
        "\<lparr>Timestamp = JStr ''2024-01-01, 10:00'', Asset = JStr ''USDe'',
          Protocol = JStr ''Ethena'', RewardAmount = Fin (3/2),
          ExchangeRate = Fin 130, RiskScore = JNum (Fin 85)\<rparr>"
        "JStr ''2024-01-01, 10:00''" "CHR 0x22" "[]"]
  by (simp add: example_row example_score csvCell_eq escapeQuotes_def)

text \<open>
  Claim C9 as stated names the header columns RewardAmount, ValueLocal, ExchangeRate,
  TaxLiability and RiskScoreAtTime: the header the code writes differs.
\<close>

theorem C9_header_counterexample:
  "generateTaxCSV integer_digits \<lparr>userLocation = ''KE'', yieldLogs = []\<rparr> ''KES''
     = ''Timestamp,Asset,Protocol,Reward Amount (Crypto),Value at Receipt (KES),Exchange Rate,Tax Liability,Risk Score at Time'' \<and>
   generateTaxCSV integer_digits \<lparr>userLocation = ''KE'', yieldLogs = []\<rparr> ''KES''
     \<noteq> ''Timestamp,Asset,Protocol,RewardAmount,ValueLocal,ExchangeRate,TaxLiability,RiskScoreAtTime''"
  by (simp add: generateTaxCSV_def csvHeader_def csvCell_plain)



end
